theory Spec2Isabelle
  imports Complex_Main
begin

section \<open>The numbers of the kernel\<close>

text \<open>
  Every scalar of the geometry kernel is a JavaScript \<^verbatim>\<open>number\<close>. The model keeps the
  three special values of that type apart from the finite ones, because the kernel relies on
  them: an empty box has corners at plus and minus infinity, and \<^verbatim>\<open>int\<close> rejects
  \<^verbatim>\<open>NaN\<close> and the infinities. A finite number is modelled by the real it denotes:
  the sign of zero is not modelled, and the results of \<open>+\<close>, \<open>-\<close>, \<open>*\<close> and \<open>/\<close> are
  not rounded. Where a loop counts with \<^verbatim>\<open>++\<close> the rounding decides whether the loop ends,
  so the increment is rounded to a double (\<open>increment\<close> below). The arithmetic on
  the special values follows the rules of the language (\<^verbatim>\<open>Infinity - Infinity\<close>,
  \<^verbatim>\<open>0 * Infinity\<close> and \<^verbatim>\<open>0 / 0\<close> are \<^verbatim>\<open>NaN\<close>; \<^verbatim>\<open>NaN\<close> is absorbing;
  a nonzero finite number divided by zero is an infinity; every comparison with
  \<^verbatim>\<open>NaN\<close> is false).
\<close>

datatype number = Fin real | PInf | NInf | NaN

fun num_neg :: "number \<Rightarrow> number" where
  "num_neg (Fin a) = Fin (- a)"
| "num_neg PInf = NInf"
| "num_neg NInf = PInf"
| "num_neg NaN = NaN"

fun num_add :: "number \<Rightarrow> number \<Rightarrow> number" where
  "num_add (Fin a) (Fin b) = Fin (a + b)"
| "num_add (Fin a) PInf = PInf"
| "num_add (Fin a) NInf = NInf"
| "num_add (Fin a) NaN = NaN"
| "num_add PInf (Fin b) = PInf"
| "num_add PInf PInf = PInf"
| "num_add PInf NInf = NaN"
| "num_add PInf NaN = NaN"
| "num_add NInf (Fin b) = NInf"
| "num_add NInf PInf = NaN"
| "num_add NInf NInf = NInf"
| "num_add NInf NaN = NaN"
| "num_add NaN b = NaN"

fun num_mul :: "number \<Rightarrow> number \<Rightarrow> number" where
  "num_mul (Fin a) (Fin b) = Fin (a * b)"
| "num_mul (Fin a) PInf = (if a = 0 then NaN else if 0 < a then PInf else NInf)"
| "num_mul (Fin a) NInf = (if a = 0 then NaN else if 0 < a then NInf else PInf)"
| "num_mul (Fin a) NaN = NaN"
| "num_mul PInf (Fin b) = (if b = 0 then NaN else if 0 < b then PInf else NInf)"
| "num_mul PInf PInf = PInf"
| "num_mul PInf NInf = NInf"
| "num_mul PInf NaN = NaN"
| "num_mul NInf (Fin b) = (if b = 0 then NaN else if 0 < b then NInf else PInf)"
| "num_mul NInf PInf = NInf"
| "num_mul NInf NInf = PInf"
| "num_mul NInf NaN = NaN"
| "num_mul NaN b = NaN"

fun num_div :: "number \<Rightarrow> number \<Rightarrow> number" where
  "num_div (Fin a) (Fin b) =
     (if b \<noteq> 0 then Fin (a / b) else if a = 0 then NaN else if 0 < a then PInf else NInf)"
| "num_div (Fin a) PInf = Fin 0"
| "num_div (Fin a) NInf = Fin 0"
| "num_div (Fin a) NaN = NaN"
| "num_div PInf (Fin b) = (if 0 \<le> b then PInf else NInf)"
| "num_div PInf PInf = NaN"
| "num_div PInf NInf = NaN"
| "num_div PInf NaN = NaN"
| "num_div NInf (Fin b) = (if 0 \<le> b then NInf else PInf)"
| "num_div NInf PInf = NaN"
| "num_div NInf NInf = NaN"
| "num_div NInf NaN = NaN"
| "num_div NaN b = NaN"

fun num_le :: "number \<Rightarrow> number \<Rightarrow> bool" where
  "num_le (Fin a) (Fin b) = (a \<le> b)"
| "num_le (Fin a) PInf = True"
| "num_le (Fin a) NInf = False"
| "num_le (Fin a) NaN = False"
| "num_le PInf (Fin b) = False"
| "num_le PInf PInf = True"
| "num_le PInf NInf = False"
| "num_le PInf NaN = False"
| "num_le NInf (Fin b) = True"
| "num_le NInf PInf = True"
| "num_le NInf NInf = True"
| "num_le NInf NaN = False"
| "num_le NaN b = False"

fun num_lt :: "number \<Rightarrow> number \<Rightarrow> bool" where
  "num_lt (Fin a) (Fin b) = (a < b)"
| "num_lt (Fin a) PInf = True"
| "num_lt (Fin a) NInf = False"
| "num_lt (Fin a) NaN = False"
| "num_lt PInf b = False"
| "num_lt NInf (Fin b) = True"
| "num_lt NInf PInf = True"
| "num_lt NInf NInf = False"
| "num_lt NInf NaN = False"
| "num_lt NaN b = False"

text \<open>
  The operators of the language are written as in the source: \<open>+\<close>, \<open>-\<close>, \<open>*\<close>, \<open>/\<close>,
  \<open>\<le>\<close> and \<open><\<close> on \<^typ>\<open>number\<close> are the functions above. Only the notation is
  taken from the type classes, none of their laws.
\<close>

instantiation number :: "{plus, minus, uminus, times, inverse, ord}"
begin

definition plus_number :: "number \<Rightarrow> number \<Rightarrow> number" where
  "plus_number a b = num_add a b"

definition uminus_number :: "number \<Rightarrow> number" where
  "uminus_number a = num_neg a"

definition minus_number :: "number \<Rightarrow> number \<Rightarrow> number" where
  "minus_number a b = num_add a (num_neg b)"

definition times_number :: "number \<Rightarrow> number \<Rightarrow> number" where
  "times_number a b = num_mul a b"

definition divide_number :: "number \<Rightarrow> number \<Rightarrow> number" where
  "divide_number a b = num_div a b"

definition inverse_number :: "number \<Rightarrow> number" where
  "inverse_number a = num_div (Fin 1) a"

definition less_eq_number :: "number \<Rightarrow> number \<Rightarrow> bool" where
  "less_eq_number a b = num_le a b"

definition less_number :: "number \<Rightarrow> number \<Rightarrow> bool" where
  "less_number a b = num_lt a b"

instance ..

end

text \<open>The functions of \<^verbatim>\<open>Math\<close> and \<^verbatim>\<open>Number\<close> that the kernel calls.\<close>

fun Number_isFinite :: "number \<Rightarrow> bool" where
  "Number_isFinite (Fin a) = True"
| "Number_isFinite PInf = False"
| "Number_isFinite NInf = False"
| "Number_isFinite NaN = False"

fun Number_isInteger :: "number \<Rightarrow> bool" where
  "Number_isInteger (Fin a) = (of_int \<lfloor>a\<rfloor> = a)"
| "Number_isInteger PInf = False"
| "Number_isInteger NInf = False"
| "Number_isInteger NaN = False"

fun Math_floor :: "number \<Rightarrow> number" where
  "Math_floor (Fin a) = Fin (of_int \<lfloor>a\<rfloor>)"
| "Math_floor PInf = PInf"
| "Math_floor NInf = NInf"
| "Math_floor NaN = NaN"

fun Math_cos :: "number \<Rightarrow> number" where
  "Math_cos (Fin a) = Fin (cos a)"
| "Math_cos PInf = NaN"
| "Math_cos NInf = NaN"
| "Math_cos NaN = NaN"

fun Math_sin :: "number \<Rightarrow> number" where
  "Math_sin (Fin a) = Fin (sin a)"
| "Math_sin PInf = NaN"
| "Math_sin NInf = NaN"
| "Math_sin NaN = NaN"

text \<open>
  The tangent has no value where the cosine is zero. No double is such a point, so
  \<^verbatim>\<open>Math.tan\<close> never meets one; the model answers \<^verbatim>\<open>NaN\<close> there.
\<close>

fun Math_tan :: "number \<Rightarrow> number" where
  "Math_tan (Fin a) = (if cos a = 0 then NaN else Fin (tan a))"
| "Math_tan PInf = NaN"
| "Math_tan NInf = NaN"
| "Math_tan NaN = NaN"

fun Math_min :: "number \<Rightarrow> number \<Rightarrow> number" where
  "Math_min (Fin a) (Fin b) = Fin (min a b)"
| "Math_min (Fin a) PInf = Fin a"
| "Math_min (Fin a) NInf = NInf"
| "Math_min (Fin a) NaN = NaN"
| "Math_min PInf (Fin b) = Fin b"
| "Math_min PInf PInf = PInf"
| "Math_min PInf NInf = NInf"
| "Math_min PInf NaN = NaN"
| "Math_min NInf (Fin b) = NInf"
| "Math_min NInf PInf = NInf"
| "Math_min NInf NInf = NInf"
| "Math_min NInf NaN = NaN"
| "Math_min NaN b = NaN"

fun Math_max :: "number \<Rightarrow> number \<Rightarrow> number" where
  "Math_max (Fin a) (Fin b) = Fin (max a b)"
| "Math_max (Fin a) PInf = PInf"
| "Math_max (Fin a) NInf = Fin a"
| "Math_max (Fin a) NaN = NaN"
| "Math_max PInf (Fin b) = PInf"
| "Math_max PInf PInf = PInf"
| "Math_max PInf NInf = PInf"
| "Math_max PInf NaN = NaN"
| "Math_max NInf (Fin b) = Fin b"
| "Math_max NInf PInf = PInf"
| "Math_max NInf NInf = NInf"
| "Math_max NInf NaN = NaN"
| "Math_max NaN b = NaN"


text \<open>
  The double nearest to a real: with \<open>e\<close> the binary exponent of \<open>r\<close> (at least \<open>-1022\<close>,
  where the subnormal numbers begin) the doubles around \<open>r\<close> are the multiples of
  \<open>2 ^ (e - 52)\<close>; \<open>r\<close> goes to the nearest one, a tie goes to the even multiple, and a result
  of magnitude \<open>2 ^ 1024\<close> or more is an infinity.
\<close>

definition binary64_round :: "real \<Rightarrow> number" where
  "binary64_round r =
     (if r = 0 then Fin 0
      else let e = max \<lfloor>log 2 \<bar>r\<bar>\<rfloor> (- 1022);
               ulp = 2 powi (e - 52);
               q = r / ulp;
               d = \<lfloor>q\<rfloor>;
               n = (if q - of_int d < 1 / 2 then d
                    else if 1 / 2 < q - of_int d then d + 1
                    else if even d then d else d + 1);
               v = of_int n * ulp
           in if 2 powi 1024 \<le> \<bar>v\<bar> then (if 0 < r then PInf else NInf) else Fin v)"

text \<open>
  \<^verbatim>\<open>++x\<close> replaces \<open>x\<close> by the double nearest to \<open>x + 1\<close>. From \<open>2 ^ 53\<close> on the doubles
  are more than one apart, and there \<^verbatim>\<open>++x\<close> may leave \<open>x\<close> as it is.
\<close>

fun increment :: "number \<Rightarrow> number" where
  "increment (Fin a) = binary64_round (a + 1)"
| "increment PInf = PInf"
| "increment NInf = NInf"
| "increment NaN = NaN"

definition Math_PI :: number where
  "Math_PI = Fin pi"

definition DEG_TO_RAD :: number where
  "DEG_TO_RAD = Math_PI / Fin 180"

definition sq :: "number \<Rightarrow> number" where
  "sq x = x * x"

section \<open>The integer refinement\<close>

text \<open>
  \<^verbatim>\<open>int(n)\<close> throws \<^verbatim>\<open>new Error("not an integer")\<close> when \<^verbatim>\<open>Number.isInteger(n)\<close>
  is false and returns \<^verbatim>\<open>n\<close> otherwise. The exception is the left summand of the result.
\<close>

datatype error = Error string

definition int_number :: "number \<Rightarrow> error + number" where
  "int_number n =
     (if \<not> Number_isInteger n then Inl (Error ''not an integer'') else Inr n)"

section \<open>Vectors, matrices and boxes as array contents\<close>

text \<open>
  A \<^verbatim>\<open>Vec2\<close>, \<^verbatim>\<open>Vec3\<close>, \<^verbatim>\<open>Mat2A\<close>, \<^verbatim>\<open>Mat4\<close> or \<^verbatim>\<open>MatA\<close> is a JavaScript array of 2, 3,
  6, 16 and 16 numbers; the brand of its type has no runtime representation. The model
  takes the contents of the array as a list: \<open>A ! i\<close> reads \<^verbatim>\<open>A[i]\<close> and \<open>A[i := v]\<close> is the
  array after \<^verbatim>\<open>A[i] = v\<close>. Every index in the source is a literal below the length that
  the tuple type fixes, so theorems about reads and writes assume that length.
  A \<^verbatim>\<open>Box2\<close> is the array of its two corners.
\<close>

type_synonym Vec2 = "number list"
type_synonym Vec3 = "number list"
type_synonym Mat4 = "number list"
type_synonym MatA = "number list"
type_synonym Box2 = "Vec2 list"

subsection \<open>Mat4\<close>

record perspective_params =
  fovy :: number
  width :: number
  height :: number
  near :: number
  far :: number

definition Mat4_perspective :: "perspective_params \<Rightarrow> Mat4" where
  "Mat4_perspective params =
     (let depth = far params - near params;
          c0 = near params / Math_tan (Fin 0.5 * fovy params * DEG_TO_RAD);
          c1 = (c0 * height params) / width params
      in [c1, Fin 0, Fin 0, Fin 0,
          Fin 0, c0, Fin 0, Fin 0,
          Fin 0, Fin 0, - (near params + far params) / depth,
            (Fin (- 2) * near params * far params) / depth,
          Fin 0, Fin 0, Fin (- 1), Fin 0])"

definition Mat4_transformPoint :: "Mat4 \<Rightarrow> Vec3 \<Rightarrow> Vec3" where
  "Mat4_transformPoint M P =
     (let x = P ! 0; y = P ! 1; z = P ! 2;
          w = M ! 12 * x + M ! 13 * y + M ! 14 * z + M ! 15
      in [(M ! 0 * x + M ! 1 * y + M ! 2 * z + M ! 3) / w,
          (M ! 4 * x + M ! 5 * y + M ! 6 * z + M ! 7) / w,
          (M ! 8 * x + M ! 9 * y + M ! 10 * z + M ! 11) / w])"

subsection \<open>MatA\<close>

text \<open>
  The mutators of \<^verbatim>\<open>MatA\<close> write into their first argument and into nothing else, so
  each is a function from the contents of \<^verbatim>\<open>A\<close> before the call to its contents after
  it, one \<open>let\<close> per assignment of the source, in the source's order.
\<close>

definition MatA_eye :: MatA where
  "MatA_eye = [Fin 1, Fin 0, Fin 0, Fin 0,
               Fin 0, Fin 1, Fin 0, Fin 0,
               Fin 0, Fin 0, Fin 1, Fin 0,
               Fin 0, Fin 0, Fin 0, Fin 1]"

definition MatA_translate :: "MatA \<Rightarrow> Vec3 \<Rightarrow> MatA" where
  "MatA_translate A u =
     (let A = A[3 := A ! 3 + u ! 0];
          A = A[7 := A ! 7 + u ! 1];
          A = A[11 := A ! 11 + u ! 2]
      in A)"

definition MatA_translation :: "Vec3 \<Rightarrow> MatA" where
  "MatA_translation u = MatA_translate MatA_eye u"

definition MatA_scaleX :: "MatA \<Rightarrow> number \<Rightarrow> MatA" where
  "MatA_scaleX A s =
     (let A = A[0 := A ! 0 * s];
          A = A[1 := A ! 1 * s];
          A = A[2 := A ! 2 * s];
          A = A[3 := A ! 3 * s]
      in A)"

definition MatA_scaleY :: "MatA \<Rightarrow> number \<Rightarrow> MatA" where
  "MatA_scaleY A s =
     (let A = A[4 := A ! 4 * s];
          A = A[5 := A ! 5 * s];
          A = A[6 := A ! 6 * s];
          A = A[7 := A ! 7 * s]
      in A)"

definition MatA_scaleZ :: "MatA \<Rightarrow> number \<Rightarrow> MatA" where
  "MatA_scaleZ A s =
     (let A = A[8 := A ! 8 * s];
          A = A[9 := A ! 9 * s];
          A = A[10 := A ! 10 * s];
          A = A[11 := A ! 11 * s]
      in A)"

definition MatA_scale :: "MatA \<Rightarrow> number \<Rightarrow> MatA" where
  "MatA_scale A s =
     (let A = A[0 := A ! 0 * s];
          A = A[1 := A ! 1 * s];
          A = A[2 := A ! 2 * s];
          A = A[3 := A ! 3 * s];
          A = A[4 := A ! 4 * s];
          A = A[5 := A ! 5 * s];
          A = A[6 := A ! 6 * s];
          A = A[7 := A ! 7 * s];
          A = A[8 := A ! 8 * s];
          A = A[9 := A ! 9 * s];
          A = A[10 := A ! 10 * s];
          A = A[11 := A ! 11 * s]
      in A)"

definition MatA_scaleVector :: "MatA \<Rightarrow> Vec3 \<Rightarrow> MatA" where
  "MatA_scaleVector A u =
     (let sx = u ! 0; sy = u ! 1; sz = u ! 2;
          A = A[0 := A ! 0 * sx];
          A = A[1 := A ! 1 * sx];
          A = A[2 := A ! 2 * sx];
          A = A[3 := A ! 3 * sx];
          A = A[4 := A ! 4 * sy];
          A = A[5 := A ! 5 * sy];
          A = A[6 := A ! 6 * sy];
          A = A[7 := A ! 7 * sy];
          A = A[8 := A ! 8 * sz];
          A = A[9 := A ! 9 * sz];
          A = A[10 := A ! 10 * sz];
          A = A[11 := A ! 11 * sz]
      in A)"

definition MatA_rotateX :: "MatA \<Rightarrow> number \<Rightarrow> MatA" where
  "MatA_rotateX A angle =
     (let c = Math_cos angle; s = Math_sin angle;
          a00 = A ! 4; a01 = A ! 5; a02 = A ! 6; a03 = A ! 7;
          a10 = A ! 8; a11 = A ! 9; a12 = A ! 10; a13 = A ! 11;
          A = A[4 := c * a00 - s * a10];
          A = A[5 := c * a01 - s * a11];
          A = A[6 := c * a02 - s * a12];
          A = A[7 := c * a03 - s * a13];
          A = A[8 := c * a10 + s * a00];
          A = A[9 := c * a11 + s * a01];
          A = A[10 := c * a12 + s * a02];
          A = A[11 := c * a13 + s * a03]
      in A)"

definition MatA_rotateY :: "MatA \<Rightarrow> number \<Rightarrow> MatA" where
  "MatA_rotateY A angle =
     (let c = Math_cos angle; s = Math_sin angle;
          a00 = A ! 8; a01 = A ! 9; a02 = A ! 10; a03 = A ! 11;
          a10 = A ! 0; a11 = A ! 1; a12 = A ! 2; a13 = A ! 3;
          A = A[8 := c * a00 - s * a10];
          A = A[9 := c * a01 - s * a11];
          A = A[10 := c * a02 - s * a12];
          A = A[11 := c * a03 - s * a13];
          A = A[0 := c * a10 + s * a00];
          A = A[1 := c * a11 + s * a01];
          A = A[2 := c * a12 + s * a02];
          A = A[3 := c * a13 + s * a03]
      in A)"

definition MatA_rotateZ :: "MatA \<Rightarrow> number \<Rightarrow> MatA" where
  "MatA_rotateZ A angle =
     (let c = Math_cos angle; s = Math_sin angle;
          a00 = A ! 0; a01 = A ! 1; a02 = A ! 2; a03 = A ! 3;
          a10 = A ! 4; a11 = A ! 5; a12 = A ! 6; a13 = A ! 7;
          A = A[0 := c * a00 - s * a10];
          A = A[1 := c * a01 - s * a11];
          A = A[2 := c * a02 - s * a12];
          A = A[3 := c * a03 - s * a13];
          A = A[4 := c * a10 + s * a00];
          A = A[5 := c * a11 + s * a01];
          A = A[6 := c * a12 + s * a02];
          A = A[7 := c * a13 + s * a03]
      in A)"

subsection \<open>MatAComposer\<close>

text \<open>
  The composer holds one \<^verbatim>\<open>MatA\<close> and forwards every call to the mutator of the same
  name, then returns itself. Its state is the contents of the matrix it holds.
\<close>

datatype MatAComposer = MatAComposer MatA

fun MatAComposer_get :: "MatAComposer \<Rightarrow> MatA" where
  "MatAComposer_get (MatAComposer A) = A"

definition MatA_compose :: "MatA \<Rightarrow> MatAComposer" where
  "MatA_compose A = MatAComposer A"

fun MatAComposer_translate :: "MatAComposer \<Rightarrow> Vec3 \<Rightarrow> MatAComposer" where
  "MatAComposer_translate (MatAComposer A) u = MatAComposer (MatA_translate A u)"

fun MatAComposer_scaleX :: "MatAComposer \<Rightarrow> number \<Rightarrow> MatAComposer" where
  "MatAComposer_scaleX (MatAComposer A) s = MatAComposer (MatA_scaleX A s)"

fun MatAComposer_scaleY :: "MatAComposer \<Rightarrow> number \<Rightarrow> MatAComposer" where
  "MatAComposer_scaleY (MatAComposer A) s = MatAComposer (MatA_scaleY A s)"

fun MatAComposer_scaleZ :: "MatAComposer \<Rightarrow> number \<Rightarrow> MatAComposer" where
  "MatAComposer_scaleZ (MatAComposer A) s = MatAComposer (MatA_scaleZ A s)"

fun MatAComposer_scale :: "MatAComposer \<Rightarrow> number \<Rightarrow> MatAComposer" where
  "MatAComposer_scale (MatAComposer A) s = MatAComposer (MatA_scale A s)"

fun MatAComposer_scaleVector :: "MatAComposer \<Rightarrow> Vec3 \<Rightarrow> MatAComposer" where
  "MatAComposer_scaleVector (MatAComposer A) u = MatAComposer (MatA_scaleVector A u)"

fun MatAComposer_rotateX :: "MatAComposer \<Rightarrow> number \<Rightarrow> MatAComposer" where
  "MatAComposer_rotateX (MatAComposer A) angle = MatAComposer (MatA_rotateX A angle)"

fun MatAComposer_rotateY :: "MatAComposer \<Rightarrow> number \<Rightarrow> MatAComposer" where
  "MatAComposer_rotateY (MatAComposer A) angle = MatAComposer (MatA_rotateY A angle)"

fun MatAComposer_rotateZ :: "MatAComposer \<Rightarrow> number \<Rightarrow> MatAComposer" where
  "MatAComposer_rotateZ (MatAComposer A) angle = MatAComposer (MatA_rotateZ A angle)"

subsection \<open>Box2: membership and lattice enumeration\<close>

definition Box2_containsInEx :: "Box2 \<Rightarrow> Vec2 \<Rightarrow> bool" where
  "Box2_containsInEx B P \<longleftrightarrow>
     B ! 0 ! 0 \<le> P ! 0 \<and> P ! 0 < B ! 1 ! 0 \<and> B ! 0 ! 1 \<le> P ! 1 \<and> P ! 1 < B ! 1 ! 1"

text \<open>
  \<^verbatim>\<open>integerPoints\<close> is a generator with two nested \<^verbatim>\<open>for\<close> loops. Its model is the list of
  the points it yields, each as the contents of the shared vector \<^verbatim>\<open>P\<close> at the moment of
  the \<^verbatim>\<open>yield\<close>, when the enumeration ends; a run that never ends is \<open>None\<close>. The inner
  loop starts from \<^verbatim>\<open>Math.floor(y0)\<close> anew for every \<open>x\<close>, and both counters step with
  \<^verbatim>\<open>++\<close>.
\<close>

partial_function (option) integerPoints_inner ::
  "number \<Rightarrow> number \<Rightarrow> number \<Rightarrow> Vec2 list \<Rightarrow> Vec2 list option" where
  "integerPoints_inner x y y1 out =
     (if y \<le> y1 then integerPoints_inner x (increment y) y1 (out @ [[x, y]]) else Some out)"

partial_function (option) integerPoints_outer ::
  "number \<Rightarrow> number \<Rightarrow> number \<Rightarrow> number \<Rightarrow> Vec2 list \<Rightarrow> Vec2 list option" where
  "integerPoints_outer x y0 x1 y1 out =
     (if x \<le> x1
      then Option.bind (integerPoints_inner x (Math_floor y0) y1 out)
             (\<lambda>out. integerPoints_outer (increment x) y0 x1 y1 out)
      else Some out)"

definition Box2_integerPoints :: "Box2 \<Rightarrow> Vec2 list option" where
  "Box2_integerPoints B =
     (let x0 = B ! 0 ! 0; y0 = B ! 0 ! 1; x1 = B ! 1 ! 0; y1 = B ! 1 ! 1
      in integerPoints_outer (Math_floor x0) y0 x1 y1 [])"

section \<open>Operations with an optional destination, on an explicit store\<close>

text \<open>
  Most operations take an optional destination \<^verbatim>\<open>_\<close>: when it is omitted a new array is
  allocated, and the caller may pass any array, also one of the sources. What such a call
  returns depends on which arrays are the same storage, so these operations are modelled on
  a store: \<open>cells s a\<close> is the contents of the array at address \<open>a\<close>, and \<open>fresh s\<close> is the
  next unused address. \<open>rd s a i\<close> reads \<^verbatim>\<open>a[i]\<close>, \<open>wr a i v s\<close> is the store after
  \<^verbatim>\<open>a[i] = v\<close>, and every definition reads and writes in the order of the source. The
  destination is an \<open>option\<close>: \<open>None\<close> is the omitted argument, whose default initialiser
  runs before the body.

  A \<^verbatim>\<open>Box2\<close> is an array of two references and a \<^verbatim>\<open>Box3\<close> an object with the two fields
  \<^verbatim>\<open>P0\<close> and \<^verbatim>\<open>P1\<close>. No operation assigns to a slot of a box (they write into the corner
  vectors), so a box is modelled by the addresses of its corners. An iterable of vectors or
  boxes is the finite list of its elements.
\<close>

type_synonym addr = nat

record store =
  cells :: "addr \<Rightarrow> number list"
  fresh :: addr

definition alloc :: "number list \<Rightarrow> store \<Rightarrow> addr \<times> store" where
  "alloc xs s = (fresh s, s\<lparr>cells := (cells s)(fresh s := xs), fresh := Suc (fresh s)\<rparr>)"

definition rd :: "store \<Rightarrow> addr \<Rightarrow> nat \<Rightarrow> number" where
  "rd s a i = cells s a ! i"

definition wr :: "addr \<Rightarrow> nat \<Rightarrow> number \<Rightarrow> store \<Rightarrow> store" where
  "wr a i v s = s\<lparr>cells := (cells s)(a := (cells s a)[i := v])\<rparr>"

fun default_to :: "(store \<Rightarrow> 'r \<times> store) \<Rightarrow> 'r option \<Rightarrow> store \<Rightarrow> 'r \<times> store" where
  "default_to initialiser None s = initialiser s"
| "default_to initialiser (Some r) s = (r, s)"

subsection \<open>Vec2\<close>

text \<open>
  \<^verbatim>\<open>new Array<number>(2)\<close> has two empty slots. Reading one gives \<^verbatim>\<open>undefined\<close>, which
  every operator and every function of \<^verbatim>\<open>Math\<close> used here converts to \<^verbatim>\<open>NaN\<close>; the
  model stores \<^verbatim>\<open>NaN\<close> there.
\<close>

definition Vec2_uninitialized :: "store \<Rightarrow> addr \<times> store" where
  "Vec2_uninitialized s = alloc [NaN, NaN] s"


definition Vec2_polar :: "number \<Rightarrow> number \<Rightarrow> addr option \<Rightarrow> store \<Rightarrow> addr \<times> store" where
  "Vec2_polar r angle dst s =
     (let (d, s) = default_to Vec2_uninitialized dst s;
          s = wr d 0 (r * Math_cos angle) s;
          s = wr d 1 (r * Math_sin angle) s
      in (d, s))"


definition Vec2_set :: "addr \<Rightarrow> number \<Rightarrow> number \<Rightarrow> store \<Rightarrow> addr \<times> store" where
  "Vec2_set u x y s =
     (let s = wr u 0 x s;
          s = wr u 1 y s
      in (u, s))"

definition Vec2_uniform :: "number \<Rightarrow> addr option \<Rightarrow> store \<Rightarrow> addr \<times> store" where
  "Vec2_uniform k dst s =
     (let (d, s) = default_to Vec2_uninitialized dst s;
          s = wr d 0 k s;
          s = wr d 1 k s
      in (d, s))"







definition Vec2_min :: "addr \<Rightarrow> addr \<Rightarrow> addr option \<Rightarrow> store \<Rightarrow> addr \<times> store" where
  "Vec2_min u v dst s =
     (let (d, s) = default_to Vec2_uninitialized dst s;
          s = wr d 0 (Math_min (rd s u 0) (rd s v 0)) s;
          s = wr d 1 (Math_min (rd s u 1) (rd s v 1)) s
      in (d, s))"

definition Vec2_max :: "addr \<Rightarrow> addr \<Rightarrow> addr option \<Rightarrow> store \<Rightarrow> addr \<times> store" where
  "Vec2_max u v dst s =
     (let (d, s) = default_to Vec2_uninitialized dst s;
          s = wr d 0 (Math_max (rd s u 0) (rd s v 0)) s;
          s = wr d 1 (Math_max (rd s u 1) (rd s v 1)) s
      in (d, s))"







subsection \<open>Vec3\<close>

text \<open>
  The function \<^verbatim>\<open>Vec3(x, y, z)\<close> returns the array of its three arguments, a new one on
  every call.
\<close>

definition Vec3 :: "number \<Rightarrow> number \<Rightarrow> number \<Rightarrow> store \<Rightarrow> addr \<times> store" where
  "Vec3 x y z s = alloc [x, y, z] s"

definition Vec3_zero :: "store \<Rightarrow> addr \<times> store" where
  "Vec3_zero s = Vec3 (Fin 0) (Fin 0) (Fin 0) s"

definition Vec3_uniform :: "number \<Rightarrow> store \<Rightarrow> addr \<times> store" where
  "Vec3_uniform k s = Vec3 k k k s"





definition Vec3_min :: "addr \<Rightarrow> addr \<Rightarrow> addr option \<Rightarrow> store \<Rightarrow> addr \<times> store" where
  "Vec3_min u v dst s =
     (let (d, s) = default_to Vec3_zero dst s;
          s = wr d 0 (Math_min (rd s u 0) (rd s v 0)) s;
          s = wr d 1 (Math_min (rd s u 1) (rd s v 1)) s;
          s = wr d 2 (Math_min (rd s u 2) (rd s v 2)) s
      in (d, s))"

definition Vec3_max :: "addr \<Rightarrow> addr \<Rightarrow> addr option \<Rightarrow> store \<Rightarrow> addr \<times> store" where
  "Vec3_max u v dst s =
     (let (d, s) = default_to Vec3_zero dst s;
          s = wr d 0 (Math_max (rd s u 0) (rd s v 0)) s;
          s = wr d 1 (Math_max (rd s u 1) (rd s v 1)) s;
          s = wr d 2 (Math_max (rd s u 2) (rd s v 2)) s
      in (d, s))"


subsection \<open>Mat2A\<close>


subsection \<open>Box2\<close>

type_synonym Box2_ref = "addr list"

definition Box2_uninitialized :: "store \<Rightarrow> Box2_ref \<times> store" where
  "Box2_uninitialized s =
     (let (a, s) = Vec2_uninitialized s;
          (b, s) = Vec2_uninitialized s
      in ([a, b], s))"

definition Box2_empty :: "Box2_ref option \<Rightarrow> store \<Rightarrow> Box2_ref \<times> store" where
  "Box2_empty dst s =
     (let (B, s) = default_to Box2_uninitialized dst s;
          (r, s) = Vec2_uniform PInf (Some (B ! 0)) s;
          (r, s) = Vec2_uniform NInf (Some (B ! 1)) s
      in (B, s))"




fun Box2_expandAll_loop :: "addr \<Rightarrow> addr \<Rightarrow> addr list \<Rightarrow> store \<Rightarrow> store" where
  "Box2_expandAll_loop P0 P1 [] s = s"
| "Box2_expandAll_loop P0 P1 (P # Ps) s =
     (let (r, s) = Vec2_min P0 P (Some P0) s;
          (r, s) = Vec2_max P1 P (Some P1) s
      in Box2_expandAll_loop P0 P1 Ps s)"

definition Box2_expandAll :: "Box2_ref \<Rightarrow> addr list \<Rightarrow> store \<Rightarrow> store" where
  "Box2_expandAll B Ps s = (let P0 = B ! 0; P1 = B ! 1 in Box2_expandAll_loop P0 P1 Ps s)"

definition Box2_expandByBox :: "Box2_ref \<Rightarrow> Box2_ref \<Rightarrow> store \<Rightarrow> store" where
  "Box2_expandByBox B C s =
     (let (r, s) = Vec2_min (B ! 0) (C ! 0) (Some (B ! 0)) s;
          (r, s) = Vec2_max (B ! 1) (C ! 1) (Some (B ! 1)) s
      in s)"

definition Box2_fromPoints :: "addr list \<Rightarrow> Box2_ref option \<Rightarrow> store \<Rightarrow> Box2_ref \<times> store" where
  "Box2_fromPoints Ps dst s =
     (let (D, s) = default_to Box2_uninitialized dst s;
          (r, s) = Box2_empty (Some D) s;
          s = Box2_expandAll D Ps s
      in (D, s))"

fun Box2_wrapping_loop :: "Box2_ref \<Rightarrow> Box2_ref list \<Rightarrow> store \<Rightarrow> store" where
  "Box2_wrapping_loop D [] s = s"
| "Box2_wrapping_loop D (B # Bs) s = Box2_wrapping_loop D Bs (Box2_expandByBox D B s)"

definition Box2_wrapping ::
  "Box2_ref list \<Rightarrow> Box2_ref option \<Rightarrow> store \<Rightarrow> Box2_ref \<times> store" where
  "Box2_wrapping Bs dst s =
     (let (D, s) = default_to Box2_uninitialized dst s;
          (r, s) = Box2_empty (Some D) s;
          s = Box2_wrapping_loop D Bs s
      in (D, s))"

definition Box2_fromCenterRadius ::
  "addr \<Rightarrow> number \<Rightarrow> Box2_ref option \<Rightarrow> store \<Rightarrow> Box2_ref \<times> store" where
  "Box2_fromCenterRadius P r dst s =
     (let (D, s) = default_to Box2_uninitialized dst s;
          x = rd s P 0; y = rd s P 1;
          (u, s) = Vec2_set (D ! 0) (x - r) (y - r) s;
          (u, s) = Vec2_set (D ! 1) (x + r) (y + r) s
      in (D, s))"


subsection \<open>Box3\<close>

datatype Box3_ref = Box3 (Box3_P0: addr) (Box3_P1: addr)

definition Box3_empty :: "store \<Rightarrow> Box3_ref \<times> store" where
  "Box3_empty s =
     (let (a, s) = Vec3_uniform PInf s;
          (b, s) = Vec3_uniform NInf s
      in (Box3 a b, s))"

fun Box3_expandAll_loop :: "addr \<Rightarrow> addr \<Rightarrow> addr list \<Rightarrow> store \<Rightarrow> store" where
  "Box3_expandAll_loop P0 P1 [] s = s"
| "Box3_expandAll_loop P0 P1 (P # Ps) s =
     (let (r, s) = Vec3_min P0 P (Some P0) s;
          (r, s) = Vec3_max P1 P (Some P1) s
      in Box3_expandAll_loop P0 P1 Ps s)"

definition Box3_expandAll :: "Box3_ref \<Rightarrow> addr list \<Rightarrow> store \<Rightarrow> store" where
  "Box3_expandAll B Ps s =
     (let P0 = Box3_P0 B; P1 = Box3_P1 B in Box3_expandAll_loop P0 P1 Ps s)"

definition Box3_fromPoints :: "addr list \<Rightarrow> Box3_ref option \<Rightarrow> store \<Rightarrow> Box3_ref \<times> store" where
  "Box3_fromPoints Ps dst s =
     (let (D, s) = default_to Box3_empty dst s;
          s = Box3_expandAll D Ps s
      in (D, s))"




section \<open>Statements of the specification\<close>

text \<open>
  The last row of a \<^verbatim>\<open>MatA\<close> is entries 12 to 15. An operation keeps it when, on every
  array of sixteen numbers, it returns sixteen numbers, leaves every entry from index 12 on
  as it was, and so returns the row \<open>(0, 0, 0, 1)\<close> when it was given that row.
\<close>

definition keeps_last_row :: "(MatA \<Rightarrow> MatA) \<Rightarrow> bool" where
  "keeps_last_row f \<longleftrightarrow>
     (\<forall>A. length A = 16 \<longrightarrow>
        length (f A) = 16 \<and>
        (\<forall>i. 12 \<le> i \<longrightarrow> f A ! i = A ! i) \<and>
        (drop 12 A = [Fin 0, Fin 0, Fin 0, Fin 1] \<longrightarrow>
           drop 12 (f A) = [Fin 0, Fin 0, Fin 0, Fin 1]))"

text \<open>
  The lattice points of the specification, in column-major order: the outer list runs over
  the integers \<open>x\<close> from \<open>\<lfloor>x0\<rfloor>\<close> upwards, the inner one over the integers \<open>y\<close> from
  \<open>\<lfloor>y0\<rfloor>\<close> upwards.
\<close>

definition lattice_column_major :: "real \<Rightarrow> real \<Rightarrow> real \<Rightarrow> real \<Rightarrow> Vec2 list" where
  "lattice_column_major x0 y0 x1 y1 =
     [[Fin (of_int i), Fin (of_int j)]. i \<leftarrow> [\<lfloor>x0\<rfloor>..\<lfloor>x1\<rfloor>], j \<leftarrow> [\<lfloor>y0\<rfloor>..\<lfloor>y1\<rfloor>]]"

subsection \<open>Stores, results and aliasing\<close>

text \<open>
  An address is live with length \<open>n\<close> when it has been allocated and holds an array of
  \<open>n\<close> numbers: the arguments of a well-typed call are live.
\<close>

definition live :: "store \<Rightarrow> nat \<Rightarrow> addr \<Rightarrow> bool" where
  "live s n a \<longleftrightarrow> a < fresh s \<and> length (cells s a) = n"

text \<open>The contents of the vector that a call returns, in the store that it leaves.\<close>

definition result :: "addr \<times> store \<Rightarrow> number list" where
  "result r = cells (snd r) (fst r)"

text \<open>The contents of the two corners of the box that a call returns.\<close>

definition box_result :: "Box2_ref \<times> store \<Rightarrow> number list list" where
  "box_result r = map (cells (snd r)) (fst r)"

text \<open>
  A call with the destination \<open>a\<close> returns \<open>a\<close>, holding the same components as the
  vector that the call returns when the destination is omitted.
\<close>

definition same_as_fresh ::
  "(addr option \<Rightarrow> store \<Rightarrow> addr \<times> store) \<Rightarrow> addr \<Rightarrow> store \<Rightarrow> bool" where
  "same_as_fresh call a s \<longleftrightarrow>
     fst (call (Some a) s) = a \<and> result (call (Some a) s) = result (call None s)"


text \<open>The store that holds the given arrays at the addresses 0, 1, 2 and so on.\<close>

definition store_of :: "number list list \<Rightarrow> store" where
  "store_of xs = \<lparr>cells = (\<lambda>a. if a < length xs then xs ! a else []), fresh = length xs\<rparr>"

text \<open>The contents of the two corners of the \<^verbatim>\<open>Box3\<close> that a call returns.\<close>

definition box3_result :: "Box3_ref \<times> store \<Rightarrow> number list list" where
  "box3_result r = [cells (snd r) (Box3_P0 (fst r)), cells (snd r) (Box3_P1 (fst r))]"

text \<open>The store after every slot of the array at \<open>a\<close> has been overwritten.\<close>

definition put :: "addr \<Rightarrow> number list \<Rightarrow> store \<Rightarrow> store" where
  "put a xs s = s\<lparr>cells := (cells s)(a := xs)\<rparr>"

text \<open>
  Expansion of a pair of corners by a point, as the specification describes it:
  the lower corner becomes the component-wise minimum and the upper corner the
  component-wise maximum. The empty box has the lower corner at plus infinity and the upper
  corner at minus infinity.
\<close>

definition expand_corners ::
  "number list \<times> number list \<Rightarrow> number list \<Rightarrow> number list \<times> number list" where
  "expand_corners B P = (map2 Math_min (fst B) P, map2 Math_max (snd B) P)"

definition empty_corners :: "nat \<Rightarrow> number list \<times> number list" where
  "empty_corners n = (replicate n PInf, replicate n NInf)"

definition corners_list :: "number list \<times> number list \<Rightarrow> number list list" where
  "corners_list B = [fst B, snd B]"

section \<open>Arithmetic of the number model\<close>

lemmas number_arith =
  plus_number_def uminus_number_def minus_number_def times_number_def
  divide_number_def less_eq_number_def less_number_def

lemma divide_by_zero_not_finite: "\<not> Number_isFinite (a / Fin 0)"
  by (cases a) (simp_all add: number_arith)

lemma Number_isInteger_iff: "Number_isInteger n \<longleftrightarrow> (\<exists>k::int. n = Fin (of_int k))"
proof (cases n)
  case (Fin a)
  have "of_int \<lfloor>a\<rfloor> = a \<longleftrightarrow> (\<exists>k::int. a = of_int k)"
    by (metis floor_of_int)
  with Fin show ?thesis by simp
qed simp_all

subsection \<open>Rounding of the increment\<close>

text \<open>
  Every integer of magnitude up to \<open>2 ^ 53\<close> is a double, so below \<open>2 ^ 53\<close> the increment
  of an integer adds one. At \<open>2 ^ 53\<close> it does not: \<open>2 ^ 53 + 1\<close> lies halfway between the
  doubles \<open>2 ^ 53\<close> and \<open>2 ^ 53 + 2\<close>, and the tie goes to \<open>2 ^ 53\<close>.
\<close>

lemma binary64_round_exact:
  assumes "r \<noteq> 0"
    and "r / 2 powi (max \<lfloor>log 2 \<bar>r\<bar>\<rfloor> (- 1022) - 52) = of_int k"
    and "\<bar>r\<bar> < 2 powi 1024"
  shows "binary64_round r = Fin r"
proof -
  have v: "of_int k * 2 powi (max \<lfloor>log 2 \<bar>r\<bar>\<rfloor> (- 1022) - 52) = r"
    using assms(2) by (simp add: field_simps)
  have "binary64_round r =
      (if (2::real) powi 1024 \<le> \<bar>of_int k * 2 powi (max \<lfloor>log 2 \<bar>r\<bar>\<rfloor> (- 1022) - 52)\<bar>
       then (if 0 < r then PInf else NInf)
       else Fin (of_int k * 2 powi (max \<lfloor>log 2 \<bar>r\<bar>\<rfloor> (- 1022) - 52)))"
    unfolding binary64_round_def Let_def assms(2) using assms(1) by simp
  then show ?thesis
    unfolding v using assms(3) by simp
qed

lemma binary64_round_int:
  fixes i :: int
  assumes "\<bar>i\<bar> \<le> 2 ^ 53"
  shows "binary64_round (of_int i) = Fin (of_int i)"
proof (cases "i = 0")
  case True
  then show ?thesis by (simp add: binary64_round_def)
next
  case False
  define a :: real where "a = \<bar>of_int i\<bar>"
  define e where "e = \<lfloor>log 2 a\<rfloor>"
  have a1: "1 \<le> a" using False by (simp add: a_def)
  have a2: "a \<le> 2 ^ 53"
  proof -
    have "\<bar>of_int i :: real\<bar> = of_int \<bar>i\<bar>" by simp
    also have "\<dots> \<le> of_int (2 ^ 53)" using assms by (simp only: of_int_le_iff)
    finally show ?thesis by (simp add: a_def)
  qed
  have e0: "0 \<le> e"
    using a1 by (simp add: e_def zero_le_log_cancel_iff)
  have bounds: "2 powr of_int e \<le> a" "a < 2 powr (of_int e + 1)"
    using floor_log_eq_powr_iff [of a 2 e] a1 by (simp_all add: e_def)
  have e53: "e \<le> 53"
  proof (rule ccontr)
    assume "\<not> e \<le> 53"
    then have "54 \<le> e" by simp
    then have "(54::real) \<le> of_int e" by simp
    then have "(2::real) powr 54 \<le> 2 powr of_int e" by (rule powr_mono) simp
    with bounds(1) a2 show False by simp
  qed
  have m: "max e (- 1022) = e" using e0 by simp
  have "\<exists>k::int. (of_int i :: real) / 2 powi (e - 52) = of_int k"
  proof (cases "e = 53")
    case True
    with bounds(1) a2 have "a = 2 ^ 53" by simp
    then have "of_int i = (2 ^ 53 :: real) \<or> of_int i = - (2 ^ 53 :: real)"
      by (auto simp: a_def abs_if split: if_splits)
    then show ?thesis
    proof
      assume "of_int i = (2 ^ 53 :: real)"
      then have "(of_int i :: real) / 2 powi (e - 52) = of_int (2 ^ 52)" using True by simp
      then show ?thesis ..
    next
      assume "of_int i = - (2 ^ 53 :: real)"
      then have "(of_int i :: real) / 2 powi (e - 52) = of_int (- (2 ^ 52))" using True by simp
      then show ?thesis ..
    qed
  next
    case False
    with e53 have "e \<le> 52" by simp
    then have "(of_int i :: real) / 2 powi (e - 52) = of_int (i * 2 ^ nat (52 - e))"
      by (simp add: power_int_def field_simps)
    then show ?thesis ..
  qed
  then obtain k :: int where "(of_int i :: real) / 2 powi (e - 52) = of_int k" ..
  then have k: "(of_int i :: real) / 2 powi (max \<lfloor>log 2 \<bar>of_int i\<bar>\<rfloor> (- 1022) - 52) = of_int k"
    using m by (simp add: e_def a_def)
  have "(2::real) ^ 53 < 2 ^ 1024" by (rule power_strict_increasing) simp_all
  with a2 have small: "\<bar>of_int i :: real\<bar> < 2 powi 1024"
    by (simp add: a_def)
  from False have "(of_int i :: real) \<noteq> 0" by simp
  then show ?thesis using k small by (rule binary64_round_exact)
qed

text \<open>On numerals the rounding evaluates: every numeral up to \<open>2 ^ 53\<close> is a double.\<close>

lemma binary64_round_numeral [simp]:
  "numeral n \<le> (2 ^ 53 :: int) \<Longrightarrow> binary64_round (numeral n) = Fin (numeral n)"
  "numeral n \<le> (2 ^ 53 :: int) \<Longrightarrow> binary64_round (- numeral n) = Fin (- numeral n)"
  "binary64_round 1 = Fin 1"
  "binary64_round (- 1) = Fin (- 1)"
  using binary64_round_int [of "numeral n"] binary64_round_int [of "- numeral n"]
    binary64_round_int [of 1] binary64_round_int [of "- 1"]
  by simp_all

lemma increment_int:
  fixes i :: int
  assumes "- (2 ^ 53) \<le> i" and "i < 2 ^ 53"
  shows "increment (Fin (of_int i)) = Fin (of_int (i + 1))"
proof -
  have "\<bar>i + 1\<bar> \<le> 2 ^ 53" using assms by simp
  then have "binary64_round (of_int (i + 1)) = Fin (of_int (i + 1))"
    by (rule binary64_round_int)
  then show ?thesis by simp
qed

lemma increment_stalls: "increment (Fin (2 ^ 53)) = Fin (2 ^ 53)"
proof -
  have "\<lfloor>log 2 \<bar>2 ^ 53 + 1 :: real\<bar>\<rfloor> = 53"
    by (subst floor_log_eq_powr_iff) simp_all
  then show ?thesis
    by (simp add: binary64_round_def Let_def power_int_def)
qed

section \<open>The integer refinement throws exactly on non-integral numbers\<close>

text \<open>
  Claim C10. \<^verbatim>\<open>int(n)\<close> throws if and only if \<^verbatim>\<open>n\<close> is not an integral number, and
  returns \<^verbatim>\<open>n\<close> unchanged if and only if it is one; the integral numbers are the finite
  numbers with an integer value, so \<^verbatim>\<open>NaN\<close> and both infinities are rejected. It is the
  only function of the kernel with a \<^verbatim>\<open>throw\<close>: every other operation of this theory
  is a function whose result has no error alternative.
\<close>

theorem int_number_throws_iff_not_integral:
  "((\<exists>e. int_number n = Inl e) \<longleftrightarrow> \<not> Number_isInteger n) \<and>
   (int_number n = Inr n \<longleftrightarrow> Number_isInteger n) \<and>
   (Number_isInteger n \<longleftrightarrow> (\<exists>k::int. n = Fin (of_int k))) \<and>
   \<not> Number_isInteger NaN \<and> \<not> Number_isInteger PInf \<and> \<not> Number_isInteger NInf"
  using Number_isInteger_iff [of n] by (simp add: int_number_def)

section \<open>Mat4\<close>

lemma half_fovy_in_range:
  assumes "0 < f" "f < 180"
  shows "0 < cos (f / 2 * (pi / 180))" and "0 < tan (f / 2 * (pi / 180))"
proof -
  have r: "0 < f / 2 * (pi / 180)" "f / 2 * (pi / 180) < pi / 2"
    using assms by simp_all
  show "0 < cos (f / 2 * (pi / 180))" using r by (rule cos_gt_zero)
  show "0 < tan (f / 2 * (pi / 180))" using r by (rule tan_gt_zero)
qed

text \<open>
  For finite parameters within the preconditions every entry of the perspective matrix is
  finite, and is the real number that the derivation of the specification gives.
\<close>

lemma Mat4_perspective_finite:
  assumes "0 < f" "f < 180" "0 < w" "0 < h" "0 < n" "n < fa"
  shows "Mat4_perspective
           \<lparr>fovy = Fin f, width = Fin w, height = Fin h, near = Fin n, far = Fin fa\<rparr> =
         (let c0 = n / tan (f / 2 * (pi / 180)); c1 = c0 * h / w; depth = fa - n
          in [Fin c1, Fin 0, Fin 0, Fin 0,
              Fin 0, Fin c0, Fin 0, Fin 0,
              Fin 0, Fin 0, Fin (- (n + fa) / depth), Fin (- 2 * n * fa / depth),
              Fin 0, Fin 0, Fin (- 1), Fin 0])"
proof -
  have e: "1 / 2 * f * (pi / 180) = f / 2 * (pi / 180)" by simp
  show ?thesis
    using assms half_fovy_in_range [OF assms(1,2)]
    by (simp add: Mat4_perspective_def Let_def DEG_TO_RAD_def Math_PI_def number_arith e)
qed

text \<open>
  Claim C1. For every \<^verbatim>\<open>fovy\<close> with \<open>0 < fovy < 180\<close>, every \<^verbatim>\<open>width > 0\<close>,
  \<^verbatim>\<open>height > 0\<close>, \<^verbatim>\<open>near > 0\<close> and \<^verbatim>\<open>far > near\<close>, \<^verbatim>\<open>Mat4.perspective\<close> returns the
  row-major matrix \<open>[c1, 0, 0, 0, 0, c0, 0, 0, 0, 0, -(near+far)/depth, -2*near*far/depth,
  0, 0, -1, 0]\<close> with \<open>c0 = near / tan (fovy / 2 in radians)\<close>, \<open>c1 = c0 * height / width\<close>
  and \<open>depth = far - near\<close>. The comparisons and the arithmetic are those of the language.
\<close>

theorem Mat4_perspective_matrix:
  assumes "Fin 0 < fovy p" and "fovy p < Fin 180"
    and "Fin 0 < width p" and "Fin 0 < height p"
    and "Fin 0 < near p" and "near p < far p"
  shows "Mat4_perspective p =
     (let c0 = near p / Math_tan (fovy p / Fin 2 * (Math_PI / Fin 180));
          c1 = c0 * height p / width p;
          depth = far p - near p
      in [c1, Fin 0, Fin 0, Fin 0,
          Fin 0, c0, Fin 0, Fin 0,
          Fin 0, Fin 0, - (near p + far p) / depth, Fin (- 2) * near p * far p / depth,
          Fin 0, Fin 0, Fin (- 1), Fin 0])"
proof -
  from assms(1,2) obtain f where f: "fovy p = Fin f"
    by (cases "fovy p") (simp_all add: number_arith)
  have "Fin 0.5 * fovy p = fovy p / Fin 2"
    by (simp add: f number_arith)
  then show ?thesis
    by (simp add: Mat4_perspective_def Let_def DEG_TO_RAD_def)
qed

theorem Mat4_perspective_matrix_witness:
  "Fin 0 < Fin 90 \<and> Fin 90 < Fin 180 \<and> Fin 0 < Fin 1 \<and> Fin 1 < Fin 100 \<and>
   Mat4_perspective
     \<lparr>fovy = Fin 90, width = Fin 1, height = Fin 1, near = Fin 1, far = Fin 100\<rparr> =
   [Fin 1, Fin 0, Fin 0, Fin 0,
    Fin 0, Fin 1, Fin 0, Fin 0,
    Fin 0, Fin 0, Fin (- 101 / 99), Fin (- 200 / 99),
    Fin 0, Fin 0, Fin (- 1), Fin 0]"
proof -
  have h: "Fin 0 < Fin 90" "Fin 90 < Fin 180" "Fin 0 < Fin 1" "Fin 1 < Fin 100"
    by (simp_all add: number_arith)
  have t: "tan (pi / 4) = 1" "cos (pi / 4) \<noteq> 0"
    by (simp_all add: tan_45 cos_45)
  show ?thesis
    using h Mat4_perspective_matrix
      [of "\<lparr>fovy = Fin 90, width = Fin 1, height = Fin 1, near = Fin 1, far = Fin 100\<rparr>"]
    by (simp add: Let_def Math_PI_def number_arith t)
qed

text \<open>
  Claim C2. \<^verbatim>\<open>Mat4.transformPoint(M, P)\<close> computes \<open>w = M[12]*x + M[13]*y + M[14]*z +
  M[15]\<close> and returns the three transformed rows, each divided by \<open>w\<close>. The division is
  not guarded: the function has no error result, and when \<open>w\<close> is zero every component of
  the point it returns is an infinity or \<^verbatim>\<open>NaN\<close>.
\<close>

theorem Mat4_transformPoint_divides_by_w:
  "Mat4_transformPoint M P =
     (let x = P ! 0; y = P ! 1; z = P ! 2;
          w = M ! 12 * x + M ! 13 * y + M ! 14 * z + M ! 15
      in [(M ! 0 * x + M ! 1 * y + M ! 2 * z + M ! 3) / w,
          (M ! 4 * x + M ! 5 * y + M ! 6 * z + M ! 7) / w,
          (M ! 8 * x + M ! 9 * y + M ! 10 * z + M ! 11) / w]) \<and>
   (M ! 12 * P ! 0 + M ! 13 * P ! 1 + M ! 14 * P ! 2 + M ! 15 = Fin 0 \<longrightarrow>
      (\<forall>c \<in> set (Mat4_transformPoint M P). \<not> Number_isFinite c))"
  by (simp add: Mat4_transformPoint_def Let_def divide_by_zero_not_finite)

theorem Mat4_transformPoint_divides_by_w_witness:
  "[Fin 1, Fin 0, Fin 0, Fin 0, Fin 0, Fin 1, Fin 0, Fin 0,
    Fin 0, Fin 0, Fin 1, Fin 0, Fin 0, Fin 0, Fin 1, Fin 0] ! 12 * [Fin 1, Fin (- 2), Fin 0] ! 0 +
   [Fin 1, Fin 0, Fin 0, Fin 0, Fin 0, Fin 1, Fin 0, Fin 0,
    Fin 0, Fin 0, Fin 1, Fin 0, Fin 0, Fin 0, Fin 1, Fin 0] ! 13 * [Fin 1, Fin (- 2), Fin 0] ! 1 +
   [Fin 1, Fin 0, Fin 0, Fin 0, Fin 0, Fin 1, Fin 0, Fin 0,
    Fin 0, Fin 0, Fin 1, Fin 0, Fin 0, Fin 0, Fin 1, Fin 0] ! 14 * [Fin 1, Fin (- 2), Fin 0] ! 2 +
   [Fin 1, Fin 0, Fin 0, Fin 0, Fin 0, Fin 1, Fin 0, Fin 0,
    Fin 0, Fin 0, Fin 1, Fin 0, Fin 0, Fin 0, Fin 1, Fin 0] ! 15 = Fin 0 \<and>
   Mat4_transformPoint
     [Fin 1, Fin 0, Fin 0, Fin 0, Fin 0, Fin 1, Fin 0, Fin 0,
      Fin 0, Fin 0, Fin 1, Fin 0, Fin 0, Fin 0, Fin 1, Fin 0]
     [Fin 1, Fin (- 2), Fin 0] = [PInf, NInf, NaN]"
  using Mat4_transformPoint_divides_by_w
    [of "[Fin 1, Fin 0, Fin 0, Fin 0, Fin 0, Fin 1, Fin 0, Fin 0,
          Fin 0, Fin 0, Fin 1, Fin 0, Fin 0, Fin 0, Fin 1, Fin 0]" "[Fin 1, Fin (- 2), Fin 0]"]
  by (simp add: Let_def number_arith)

section \<open>MatA\<close>

lemma keeps_last_rowI:
  assumes "\<And>A. length (f A) = length A" and "\<And>A i. 12 \<le> i \<Longrightarrow> f A ! i = A ! i"
  shows "keeps_last_row f"
proof -
  have "drop 12 (f A) = drop 12 A" for A
    by (rule nth_equalityI) (simp_all add: assms)
  then show ?thesis by (simp add: keeps_last_row_def assms)
qed

lemma MatA_translate_keeps: "keeps_last_row (\<lambda>A. MatA_translate A u)"
  by (rule keeps_last_rowI) (simp_all add: MatA_translate_def Let_def)

lemma MatA_scaleX_keeps: "keeps_last_row (\<lambda>A. MatA_scaleX A s)"
  by (rule keeps_last_rowI) (simp_all add: MatA_scaleX_def Let_def)

lemma MatA_scaleY_keeps: "keeps_last_row (\<lambda>A. MatA_scaleY A s)"
  by (rule keeps_last_rowI) (simp_all add: MatA_scaleY_def Let_def)

lemma MatA_scaleZ_keeps: "keeps_last_row (\<lambda>A. MatA_scaleZ A s)"
  by (rule keeps_last_rowI) (simp_all add: MatA_scaleZ_def Let_def)

lemma MatA_scale_keeps: "keeps_last_row (\<lambda>A. MatA_scale A s)"
  by (rule keeps_last_rowI) (simp_all add: MatA_scale_def Let_def)

lemma MatA_scaleVector_keeps: "keeps_last_row (\<lambda>A. MatA_scaleVector A u)"
  by (rule keeps_last_rowI) (simp_all add: MatA_scaleVector_def Let_def)

lemma MatA_rotateX_keeps: "keeps_last_row (\<lambda>A. MatA_rotateX A angle)"
  by (rule keeps_last_rowI) (simp_all add: MatA_rotateX_def Let_def)

lemma MatA_rotateY_keeps: "keeps_last_row (\<lambda>A. MatA_rotateY A angle)"
  by (rule keeps_last_rowI) (simp_all add: MatA_rotateY_def Let_def)

lemma MatA_rotateZ_keeps: "keeps_last_row (\<lambda>A. MatA_rotateZ A angle)"
  by (rule keeps_last_rowI) (simp_all add: MatA_rotateZ_def Let_def)

text \<open>
  Claim C7. Every mutator of \<^verbatim>\<open>MatA\<close> (translate, scaleX, scaleY, scaleZ, scale,
  scaleVector, rotateX, rotateY, rotateZ) and every method of \<^verbatim>\<open>MatAComposer\<close> that
  forwards to one writes only entries 0 to 11: the entries from 12 on are after the call
  what they were before it, so a last row \<open>(0, 0, 0, 1)\<close> stays \<open>(0, 0, 0, 1)\<close>.
\<close>

theorem MatA_operations_keep_last_row:
  "keeps_last_row (\<lambda>A. MatA_translate A u) \<and>
   keeps_last_row (\<lambda>A. MatA_scaleX A s) \<and>
   keeps_last_row (\<lambda>A. MatA_scaleY A s) \<and>
   keeps_last_row (\<lambda>A. MatA_scaleZ A s) \<and>
   keeps_last_row (\<lambda>A. MatA_scale A s) \<and>
   keeps_last_row (\<lambda>A. MatA_scaleVector A u) \<and>
   keeps_last_row (\<lambda>A. MatA_rotateX A angle) \<and>
   keeps_last_row (\<lambda>A. MatA_rotateY A angle) \<and>
   keeps_last_row (\<lambda>A. MatA_rotateZ A angle) \<and>
   keeps_last_row (\<lambda>A. MatAComposer_get (MatAComposer_translate (MatA_compose A) u)) \<and>
   keeps_last_row (\<lambda>A. MatAComposer_get (MatAComposer_scaleX (MatA_compose A) s)) \<and>
   keeps_last_row (\<lambda>A. MatAComposer_get (MatAComposer_scaleY (MatA_compose A) s)) \<and>
   keeps_last_row (\<lambda>A. MatAComposer_get (MatAComposer_scaleZ (MatA_compose A) s)) \<and>
   keeps_last_row (\<lambda>A. MatAComposer_get (MatAComposer_scale (MatA_compose A) s)) \<and>
   keeps_last_row (\<lambda>A. MatAComposer_get (MatAComposer_scaleVector (MatA_compose A) u)) \<and>
   keeps_last_row (\<lambda>A. MatAComposer_get (MatAComposer_rotateX (MatA_compose A) angle)) \<and>
   keeps_last_row (\<lambda>A. MatAComposer_get (MatAComposer_rotateY (MatA_compose A) angle)) \<and>
   keeps_last_row (\<lambda>A. MatAComposer_get (MatAComposer_rotateZ (MatA_compose A) angle))"
  by (simp add: MatA_compose_def MatA_translate_keeps MatA_scaleX_keeps MatA_scaleY_keeps
      MatA_scaleZ_keeps MatA_scale_keeps MatA_scaleVector_keeps MatA_rotateX_keeps
      MatA_rotateY_keeps MatA_rotateZ_keeps)

theorem MatA_operations_keep_last_row_witness:
  "length MatA_eye = 16 \<and>
   drop 12 MatA_eye = [Fin 0, Fin 0, Fin 0, Fin 1] \<and>
   drop 12 (MatA_translate MatA_eye [Fin 1, Fin 2, Fin 3]) = [Fin 0, Fin 0, Fin 0, Fin 1] \<and>
   drop 12 (MatA_rotateX MatA_eye (Fin 1)) = [Fin 0, Fin 0, Fin 0, Fin 1] \<and>
   drop 12 (MatAComposer_get (MatAComposer_scale (MatA_compose MatA_eye) (Fin 2))) =
     [Fin 0, Fin 0, Fin 0, Fin 1]"
proof -
  have l: "length MatA_eye = 16" and r: "drop 12 MatA_eye = [Fin 0, Fin 0, Fin 0, Fin 1]"
    by (simp_all add: MatA_eye_def)
  note k = MatA_operations_keep_last_row [of "[Fin 1, Fin 2, Fin 3]" "Fin 2" "Fin 1"]
  from k have "keeps_last_row (\<lambda>A. MatA_translate A [Fin 1, Fin 2, Fin 3])" by blast
  with l r have 1: "drop 12 (MatA_translate MatA_eye [Fin 1, Fin 2, Fin 3]) =
      [Fin 0, Fin 0, Fin 0, Fin 1]"
    unfolding keeps_last_row_def by blast
  from k have "keeps_last_row (\<lambda>A. MatA_rotateX A (Fin 1))" by blast
  with l r have 2: "drop 12 (MatA_rotateX MatA_eye (Fin 1)) = [Fin 0, Fin 0, Fin 0, Fin 1]"
    unfolding keeps_last_row_def by blast
  from k have
    "keeps_last_row (\<lambda>A. MatAComposer_get (MatAComposer_scale (MatA_compose A) (Fin 2)))"
    by blast
  with l r have 3:
    "drop 12 (MatAComposer_get (MatAComposer_scale (MatA_compose MatA_eye) (Fin 2))) =
       [Fin 0, Fin 0, Fin 0, Fin 1]"
    unfolding keeps_last_row_def by blast
  from l r 1 2 3 show ?thesis by blast
qed

text \<open>
  Claim C8. For every finite vector \<open>u\<close>, the identity \<^verbatim>\<open>MatA.eye()\<close> translated by \<open>u\<close>
  sends the origin to \<open>u\<close> itself under \<^verbatim>\<open>Mat4.transformPoint\<close>: the homogeneous weight is
  exactly 1 and each component of the result equals that of \<open>u\<close>.
\<close>

theorem translate_eye_maps_origin_to_u:
  "Mat4_transformPoint (MatA_translate MatA_eye [Fin a, Fin b, Fin c]) [Fin 0, Fin 0, Fin 0] =
     [Fin a, Fin b, Fin c] \<and>
   MatA_translate MatA_eye [Fin a, Fin b, Fin c] ! 12 * Fin 0 +
   MatA_translate MatA_eye [Fin a, Fin b, Fin c] ! 13 * Fin 0 +
   MatA_translate MatA_eye [Fin a, Fin b, Fin c] ! 14 * Fin 0 +
   MatA_translate MatA_eye [Fin a, Fin b, Fin c] ! 15 = Fin 1"
  by (simp add: Mat4_transformPoint_def MatA_translate_def MatA_eye_def number_arith)

section \<open>Box2\<close>

text \<open>
  Claim C6. \<^verbatim>\<open>Box2.containsInEx(B, P)\<close> is true if and only if
  \<open>B.P0.x \<le> P.x < B.P1.x\<close> and \<open>B.P0.y \<le> P.y < B.P1.y\<close>, lower bounds inclusive and upper
  bounds exclusive; the box \<open>[(0,0),(1,1)]\<close> contains \<open>(0,0)\<close> and does not contain \<open>(1,1)\<close>.
\<close>

theorem Box2_containsInEx_half_open:
  "(Box2_containsInEx B P \<longleftrightarrow>
      (B ! 0 ! 0 \<le> P ! 0 \<and> P ! 0 < B ! 1 ! 0) \<and> (B ! 0 ! 1 \<le> P ! 1 \<and> P ! 1 < B ! 1 ! 1)) \<and>
   (Box2_containsInEx [[Fin x0, Fin y0], [Fin x1, Fin y1]] [Fin x, Fin y] \<longleftrightarrow>
      (x0 \<le> x \<and> x < x1) \<and> (y0 \<le> y \<and> y < y1)) \<and>
   Box2_containsInEx [[Fin 0, Fin 0], [Fin 1, Fin 1]] [Fin 0, Fin 0] \<and>
   \<not> Box2_containsInEx [[Fin 0, Fin 0], [Fin 1, Fin 1]] [Fin 1, Fin 1]"
  by (auto simp: Box2_containsInEx_def number_arith)

subsection \<open>Lattice enumeration\<close>

lemma integerPoints_inner_finite:
  assumes "- (2 ^ 53) \<le> j" and "b < 2 ^ 53"
  shows "integerPoints_inner x (Fin (of_int j)) (Fin b) out =
     Some (out @ map (\<lambda>k. [x, Fin (of_int k)]) [j..\<lfloor>b\<rfloor>])"
  using assms(1)
proof (induction "nat (\<lfloor>b\<rfloor> + 1 - j)" arbitrary: j out)
  case 0
  then have "\<not> of_int j \<le> b" by (simp add: le_floor_iff [symmetric])
  moreover from 0 have "[j..\<lfloor>b\<rfloor>] = []" by simp
  ultimately show ?case
    by (subst integerPoints_inner.simps) (simp add: number_arith)
next
  case (Suc n)
  then have le: "j \<le> \<lfloor>b\<rfloor>" by simp
  then have jb: "of_int j \<le> b" by (simp add: le_floor_iff)
  with assms(2) have "(of_int j :: real) < 2 ^ 53" by simp
  then have "(of_int j :: real) < of_int (2 ^ 53)" by simp
  then have "j < 2 ^ 53" by (simp only: of_int_less_iff)
  with Suc.prems have inc: "increment (Fin (of_int j)) = Fin (of_int (j + 1))"
    by (intro increment_int)
  have "n = nat (\<lfloor>b\<rfloor> + 1 - (j + 1))" using Suc.hyps(2) by simp
  moreover have "- (2 ^ 53) \<le> j + 1" using Suc.prems by simp
  ultimately have
    "integerPoints_inner x (Fin (of_int (j + 1))) (Fin b) (out @ [[x, Fin (of_int j)]]) =
       Some ((out @ [[x, Fin (of_int j)]]) @ map (\<lambda>k. [x, Fin (of_int k)]) [j + 1..\<lfloor>b\<rfloor>])"
    by (rule Suc.hyps(1))
  then show ?case using le jb
    by (subst integerPoints_inner.simps) (simp add: number_arith inc upto_rec1 [of j] del: increment.simps)
qed

lemma integerPoints_outer_finite:
  assumes "- (2 ^ 53) \<le> i" and "x1 < 2 ^ 53" and "- (2 ^ 53) \<le> y0" and "y1 < 2 ^ 53"
  shows "integerPoints_outer (Fin (of_int i)) (Fin y0) (Fin x1) (Fin y1) out =
     Some (out @ concat (map (\<lambda>i. map (\<lambda>j. [Fin (of_int i), Fin (of_int j)]) [\<lfloor>y0\<rfloor>..\<lfloor>y1\<rfloor>])
                          [i..\<lfloor>x1\<rfloor>]))"
  using assms(1)
proof (induction "nat (\<lfloor>x1\<rfloor> + 1 - i)" arbitrary: i out)
  case 0
  then have "\<not> of_int i \<le> x1" by (simp add: le_floor_iff [symmetric])
  moreover from 0 have "[i..\<lfloor>x1\<rfloor>] = []" by simp
  ultimately show ?case
    by (subst integerPoints_outer.simps) (simp add: number_arith)
next
  case (Suc n)
  then have le: "i \<le> \<lfloor>x1\<rfloor>" by simp
  then have ix: "of_int i \<le> x1" by (simp add: le_floor_iff)
  with assms(2) have "(of_int i :: real) < of_int (2 ^ 53)" by simp
  then have "i < 2 ^ 53" by (simp only: of_int_less_iff)
  with Suc.prems have inc: "increment (Fin (of_int i)) = Fin (of_int (i + 1))"
    by (intro increment_int)
  have "(of_int (- (2 ^ 53)) :: real) \<le> y0" using assms(3) by simp
  then have fy: "- (2 ^ 53) \<le> \<lfloor>y0\<rfloor>" by (simp only: le_floor_iff)
  note inner = integerPoints_inner_finite [OF fy assms(4)]
  have "n = nat (\<lfloor>x1\<rfloor> + 1 - (i + 1))" using Suc.hyps(2) by simp
  moreover have "- (2 ^ 53) \<le> i + 1" using Suc.prems by simp
  ultimately have rest: "integerPoints_outer (Fin (of_int (i + 1))) (Fin y0) (Fin x1) (Fin y1) out' =
     Some (out' @ concat (map (\<lambda>i. map (\<lambda>j. [Fin (of_int i), Fin (of_int j)]) [\<lfloor>y0\<rfloor>..\<lfloor>y1\<rfloor>])
                          [i + 1..\<lfloor>x1\<rfloor>]))" for out'
    by (rule Suc.hyps(1))
  note rest' = rest [unfolded of_int_add of_int_1]
  show ?case using le ix
    by (subst integerPoints_outer.simps)
      (simp add: number_arith inc inner rest' upto_rec1 [of i] del: increment.simps)
qed

lemma Box2_integerPoints_finite:
  assumes "- (2 ^ 53) \<le> x0" and "x1 < 2 ^ 53" and "- (2 ^ 53) \<le> y0" and "y1 < 2 ^ 53"
  shows "Box2_integerPoints [[Fin x0, Fin y0], [Fin x1, Fin y1]] =
     Some (lattice_column_major x0 y0 x1 y1)"
proof -
  have "(of_int (- (2 ^ 53)) :: real) \<le> x0" using assms(1) by simp
  then have "- (2 ^ 53) \<le> \<lfloor>x0\<rfloor>" by (simp only: le_floor_iff)
  from integerPoints_outer_finite [OF this assms(2,3,4), of "[]"]
  show ?thesis by (simp add: Box2_integerPoints_def lattice_column_major_def)
qed

lemma integerPoints_inner_once:
  "integerPoints_inner x (Fin 0) (Fin 0) out = Some (out @ [[x, Fin 0]])"
  using integerPoints_inner_finite [of 0 0 x out] by (simp add: upto_rec1)

lemma integerPoints_outer_never_returns:
  assumes "integerPoints_outer x y0 x1 y1 out = Some r"
  shows "\<not> (x = Fin (2 ^ 53) \<and> y0 = Fin 0 \<and> x1 = Fin (2 ^ 53 + 2) \<and> y1 = Fin 0)"
proof -
  note induct = integerPoints_outer.raw_induct
    [of "\<lambda>x y0 x1 y1 out r.
           \<not> (x = Fin (2 ^ 53) \<and> y0 = Fin 0 \<and> x1 = Fin (2 ^ 53 + 2) \<and> y1 = Fin 0)"
        "((((x, y0), x1), y1), out)" r, unfolded prod.case]
  show ?thesis
  proof (rule induct)
    fix outer x y0 x1 y1 out r
    assume hyp: "\<And>x y0 x1 y1 out r. outer x y0 x1 y1 out = Some r \<Longrightarrow>
        \<not> (x = Fin (2 ^ 53) \<and> y0 = Fin 0 \<and> x1 = Fin (2 ^ 53 + 2) \<and> y1 = Fin 0)"
      and step: "(if x \<le> x1
        then Option.bind (integerPoints_inner x (Math_floor y0) y1 out)
               (outer (increment x) y0 x1 y1)
        else Some out) = Some r"
    show "\<not> (x = Fin (2 ^ 53) \<and> y0 = Fin 0 \<and> x1 = Fin (2 ^ 53 + 2) \<and> y1 = Fin 0)"
    proof
      assume eq: "x = Fin (2 ^ 53) \<and> y0 = Fin 0 \<and> x1 = Fin (2 ^ 53 + 2) \<and> y1 = Fin 0"
      have stall: "increment (Fin 9007199254740992) = Fin 9007199254740992"
        using increment_stalls by (simp del: increment.simps)
      from eq have "outer (Fin (2 ^ 53)) (Fin 0) (Fin (2 ^ 53 + 2)) (Fin 0)
          (out @ [[Fin (2 ^ 53), Fin 0]]) = Some r"
        using step by (simp add: number_arith stall integerPoints_inner_once
            del: increment.simps)
      from hyp [OF this] show False by simp
    qed
  next
    show "integerPoints_outer x y0 x1 y1 out = Some r" by (rule assms)
  qed
qed

lemma integerPoints_outer_stalls:
  "integerPoints_outer (Fin (2 ^ 53)) (Fin 0) (Fin (2 ^ 53 + 2)) (Fin 0) out = None"
  using integerPoints_outer_never_returns
    [of "Fin (2 ^ 53)" "Fin 0" "Fin (2 ^ 53 + 2)" "Fin 0" out]
  by (cases "integerPoints_outer (Fin (2 ^ 53)) (Fin 0) (Fin (2 ^ 53 + 2)) (Fin 0) out") auto

lemma set_lattice_column_major:
  "set (lattice_column_major x0 y0 x1 y1) =
     {[Fin (of_int i), Fin (of_int j)] | i j.
        \<lfloor>x0\<rfloor> \<le> i \<and> of_int i \<le> x1 \<and> \<lfloor>y0\<rfloor> \<le> j \<and> of_int j \<le> y1}"
  by (auto simp: lattice_column_major_def le_floor_iff)

lemma concat_map_product:
  "concat (map (\<lambda>i. map (g i) ys) xs) = map (\<lambda>(i, j). g i j) (List.product xs ys)"
  by (induction xs) simp_all

lemma distinct_lattice_column_major: "distinct (lattice_column_major x0 y0 x1 y1)"
  unfolding lattice_column_major_def concat_map_product
  by (auto simp: distinct_map distinct_product inj_on_def)

text \<open>
  Claim C3, as stated: for every box with finite corners the enumeration yields exactly the
  integer points \<open>(x, y)\<close> with \<open>\<lfloor>x0\<rfloor> \<le> x \<le> x1\<close> and \<open>\<lfloor>y0\<rfloor> \<le> y \<le> y1\<close>. Over the box
  \<open>[(2 ^ 53, 0), (2 ^ 53 + 2, 0)]\<close> it does not: after the point \<open>(2 ^ 53, 0)\<close> the
  increment leaves \<open>x\<close> at \<open>2 ^ 53\<close>, which is still below the upper corner, so the same
  point is yielded again and the enumeration never ends.
\<close>

theorem Box2_integerPoints_stall_counterexample:
  "Box2_integerPoints [[Fin (2 ^ 53), Fin 0], [Fin (2 ^ 53 + 2), Fin 0]] = None \<and>
   Box2_integerPoints [[Fin (2 ^ 53), Fin 0], [Fin (2 ^ 53 + 2), Fin 0]] \<noteq>
     Some (lattice_column_major (2 ^ 53) 0 (2 ^ 53 + 2) 0)"
  using integerPoints_outer_stalls [of "[]"]
  by (simp add: Box2_integerPoints_def)

text \<open>
  Claim C3, amended. For a box with finite corners \<open>(x0, y0)\<close> and \<open>(x1, y1)\<close> such that
  \<open>- 2 ^ 53 \<le> x0\<close>, \<open>- 2 ^ 53 \<le> y0\<close>, \<open>x1 < 2 ^ 53\<close> and \<open>y1 < 2 ^ 53\<close> the enumeration ends,
  and yields exactly the points \<open>(x, y)\<close> with integer coordinates such that
  \<open>\<lfloor>x0\<rfloor> \<le> x \<le> x1\<close> and \<open>\<lfloor>y0\<rfloor> \<le> y \<le> y1\<close> (the lower bounds floored, the upper bounds
  not), each once, in column-major order.
\<close>

theorem Box2_integerPoints_lattice:
  assumes "- (2 ^ 53) \<le> x0" and "x1 < 2 ^ 53" and "- (2 ^ 53) \<le> y0" and "y1 < 2 ^ 53"
  shows "Box2_integerPoints [[Fin x0, Fin y0], [Fin x1, Fin y1]] =
     Some (lattice_column_major x0 y0 x1 y1) \<and>
   set (lattice_column_major x0 y0 x1 y1) =
     {[Fin (of_int i), Fin (of_int j)] | i j.
        \<lfloor>x0\<rfloor> \<le> i \<and> of_int i \<le> x1 \<and> \<lfloor>y0\<rfloor> \<le> j \<and> of_int j \<le> y1} \<and>
   distinct (lattice_column_major x0 y0 x1 y1)"
  using Box2_integerPoints_finite [OF assms] set_lattice_column_major
    distinct_lattice_column_major
  by blast

theorem Box2_integerPoints_lattice_witness:
  "- (2 ^ 53) \<le> (- 1.5 :: real) \<and> (0 :: real) < 2 ^ 53 \<and>
   - (2 ^ 53) \<le> (0.25 :: real) \<and> (1.5 :: real) < 2 ^ 53 \<and>
   Box2_integerPoints [[Fin (- 1.5), Fin 0.25], [Fin 0, Fin 1.5]] =
     Some [[Fin (- 2), Fin 0], [Fin (- 2), Fin 1],
           [Fin (- 1), Fin 0], [Fin (- 1), Fin 1],
           [Fin 0, Fin 0], [Fin 0, Fin 1]]"
proof -
  have h: "- (2 ^ 53) \<le> (- 1.5 :: real)" "(0 :: real) < 2 ^ 53"
    "- (2 ^ 53) \<le> (0.25 :: real)" "(1.5 :: real) < 2 ^ 53"
    by simp_all
  from Box2_integerPoints_lattice [OF h]
  have "Box2_integerPoints [[Fin (- 1.5), Fin 0.25], [Fin 0, Fin 1.5]] =
      Some (lattice_column_major (- 1.5) 0.25 0 1.5)"
    by blast
  then show ?thesis
    by (simp add: lattice_column_major_def upto_rec1)
qed

text \<open>
  Claim C4, as stated: over the box \<open>[(0.5, 0.5), (2, 2)]\<close> the enumeration would yield
  the four points \<open>(1,1), (1,2), (2,1), (2,2)\<close>. It does not: the lower bounds are floored
  to 0, so the enumeration starts at \<open>(0, 0)\<close>.
\<close>

theorem Box2_integerPoints_half_counterexample:
  "Box2_integerPoints [[Fin 0.5, Fin 0.5], [Fin 2, Fin 2]] \<noteq>
     Some [[Fin 1, Fin 1], [Fin 1, Fin 2], [Fin 2, Fin 1], [Fin 2, Fin 2]]"
proof -
  have "Box2_integerPoints [[Fin 0.5, Fin 0.5], [Fin 2, Fin 2]] =
      Some (lattice_column_major 0.5 0.5 2 2)"
    by (rule Box2_integerPoints_finite) simp_all
  then show ?thesis by (simp add: lattice_column_major_def upto_rec1)
qed

text \<open>
  Claim C4, amended: over the box \<open>[(0.5, 0.5), (2, 2)]\<close> the enumeration yields exactly
  the nine points with both coordinates in \<open>{0, 1, 2}\<close>, in column-major order.
\<close>

theorem Box2_integerPoints_half:
  "Box2_integerPoints [[Fin 0.5, Fin 0.5], [Fin 2, Fin 2]] =
     Some [[Fin 0, Fin 0], [Fin 0, Fin 1], [Fin 0, Fin 2],
           [Fin 1, Fin 0], [Fin 1, Fin 1], [Fin 1, Fin 2],
           [Fin 2, Fin 0], [Fin 2, Fin 1], [Fin 2, Fin 2]]"
proof -
  have "Box2_integerPoints [[Fin 0.5, Fin 0.5], [Fin 2, Fin 2]] =
      Some (lattice_column_major 0.5 0.5 2 2)"
    by (rule Box2_integerPoints_finite) simp_all
  then show ?thesis by (simp add: lattice_column_major_def upto_rec1)
qed

section \<open>Operations on the store\<close>

lemmas store_ops = alloc_def rd_def wr_def Vec2_uninitialized_def Vec3_zero_def Vec3_def
  result_def same_as_fresh_def live_def Let_def split_def

lemma length_2_iff: "length xs = 2 \<longleftrightarrow> (\<exists>x y. xs = [x, y])"
  by (cases xs; cases "tl xs"; auto)

lemma length_3_iff: "length xs = 3 \<longleftrightarrow> (\<exists>x y z. xs = [x, y, z])"
  by (cases xs; cases "tl xs"; cases "tl (tl xs)"; auto)






























text \<open>
  \<^verbatim>\<open>Box2.fromCenterRadius\<close> reads the centre before it writes, so the centre may be a
  corner of the destination box, as long as the two corners of that box are two vectors.
\<close>

lemma Box2_fromCenterRadius_alias:
  "live s 2 b0 \<Longrightarrow> live s 2 b1 \<Longrightarrow> b0 \<noteq> b1 \<Longrightarrow>
   box_result (Box2_fromCenterRadius b0 r (Some [b0, b1]) s) = box_result (Box2_fromCenterRadius b0 r None s) \<and>
   box_result (Box2_fromCenterRadius b1 r (Some [b0, b1]) s) = box_result (Box2_fromCenterRadius b1 r None s)"
  by (auto simp: Box2_fromCenterRadius_def Box2_uninitialized_def Vec2_set_def box_result_def store_ops length_2_iff)

lemma cells_put [simp]: "cells (put a xs s) b = (if b = a then xs else cells s b)"
  by (simp add: put_def)

lemma fresh_put [simp]: "fresh (put a xs s) = fresh s"
  by (simp add: put_def)

lemma Vec2_uniform_value:
  "length (cells s d) = 2 \<Longrightarrow> Vec2_uniform k (Some d) s = (d, put d [k, k] s)"
  by (auto simp: Vec2_uniform_def put_def rd_def wr_def Let_def length_2_iff)

lemma Vec2_min_value:
  "length (cells s d) = 2 \<Longrightarrow> Vec2_min u v (Some d) s =
     (d, put d [Math_min (cells s u ! 0) (cells s v ! 0), Math_min (cells s u ! 1) (cells s v ! 1)] s)"
  by (auto simp: Vec2_min_def put_def rd_def wr_def Let_def length_2_iff)

lemma Vec2_max_value:
  "length (cells s d) = 2 \<Longrightarrow> Vec2_max u v (Some d) s =
     (d, put d [Math_max (cells s u ! 0) (cells s v ! 0), Math_max (cells s u ! 1) (cells s v ! 1)] s)"
  by (auto simp: Vec2_max_def put_def rd_def wr_def Let_def length_2_iff)

lemma Vec3_min_value:
  "length (cells s d) = 3 \<Longrightarrow> Vec3_min u v (Some d) s =
     (d, put d [Math_min (cells s u ! 0) (cells s v ! 0), Math_min (cells s u ! 1) (cells s v ! 1),
                Math_min (cells s u ! 2) (cells s v ! 2)] s)"
  by (auto simp: Vec3_min_def put_def rd_def wr_def Let_def length_3_iff)

lemma Vec3_max_value:
  "length (cells s d) = 3 \<Longrightarrow> Vec3_max u v (Some d) s =
     (d, put d [Math_max (cells s u ! 0) (cells s v ! 0), Math_max (cells s u ! 1) (cells s v ! 1),
                Math_max (cells s u ! 2) (cells s v ! 2)] s)"
  by (auto simp: Vec3_max_def put_def rd_def wr_def Let_def length_3_iff)

lemma cells_store_of [simp]: "cells (store_of xs) a = (if a < length xs then xs ! a else [])"
  by (simp add: store_of_def)

lemma fresh_store_of [simp]: "fresh (store_of xs) = length xs"
  by (simp add: store_of_def)

lemma cells_alloc [simp]: "cells (snd (alloc xs s)) a = (if a = fresh s then xs else cells s a)"
  by (simp add: alloc_def)

lemma Box2_empty_value:
  "length (cells s a) = 2 \<Longrightarrow> length (cells s b) = 2 \<Longrightarrow>
   Box2_empty (Some [a, b]) s = ([a, b], put b [NInf, NInf] (put a [PInf, PInf] s))"
  by (simp add: Box2_empty_def Vec2_uniform_value)

lemma Box3_empty_value:
  "Box3_empty s = (Box3 (fresh s) (Suc (fresh s)),
     \<lparr>cells = (cells s)(fresh s := [PInf, PInf, PInf], Suc (fresh s) := [NInf, NInf, NInf]),
      fresh = Suc (Suc (fresh s))\<rparr>)"
  by (simp add: Box3_empty_def Vec3_uniform_def Vec3_def alloc_def)

lemma Box2_uninitialized_value:
  "Box2_uninitialized s = ([fresh s, Suc (fresh s)],
     \<lparr>cells = (cells s)(fresh s := [NaN, NaN], Suc (fresh s) := [NaN, NaN]),
      fresh = Suc (Suc (fresh s))\<rparr>)"
  by (simp add: Box2_uninitialized_def Vec2_uninitialized_def alloc_def)

lemmas box_eval = Box2_fromPoints_def Box2_empty_value Box2_expandAll_def box_result_def
  Vec2_min_value Vec2_max_value Box2_uninitialized_value
  Box3_fromPoints_def Box3_expandAll_def Box3_empty_value Vec3_min_value Vec3_max_value box3_result_def

lemma put_put_same [simp]: "put a xs (put a ys s) = put a xs s"
  by (simp add: put_def)

lemma fun_upd_pair_again:
  "a \<noteq> b \<Longrightarrow> f(a := l, b := h, a := l', b := h') = f(a := l', b := h')"
  by (auto simp: fun_eq_iff)

lemma put_pair_again:
  "a \<noteq> b \<Longrightarrow> put b h' (put a l' (put b h (put a l s))) = put b h' (put a l' s)"
  by (simp add: put_def fun_upd_pair_again)

lemma Box2_expandAll_loop_value:
  assumes "P0 \<noteq> P1" "P0 \<notin> set Ps" "P1 \<notin> set Ps"
    and "length (cells s P0) = 2" "length (cells s P1) = 2"
    and "\<forall>P \<in> set Ps. length (cells s P) = 2"
  shows "Box2_expandAll_loop P0 P1 Ps s =
     put P1 (snd (foldl expand_corners (cells s P0, cells s P1) (map (cells s) Ps)))
       (put P0 (fst (foldl expand_corners (cells s P0, cells s P1) (map (cells s) Ps))) s)"
  using assms
proof (induction Ps arbitrary: s)
  case Nil
  then show ?case by (simp add: put_def)
next
  case (Cons P Ps)
  define lo where "lo = [Math_min (cells s P0 ! 0) (cells s P ! 0), Math_min (cells s P0 ! 1) (cells s P ! 1)]"
  define hi where "hi = [Math_max (cells s P1 ! 0) (cells s P ! 0), Math_max (cells s P1 ! 1) (cells s P ! 1)]"
  define s' where "s' = put P1 hi (put P0 lo s)"
  from Cons.prems have ne: "P \<noteq> P0" "P \<noteq> P1" "P0 \<noteq> P1" by auto
  have step: "Box2_expandAll_loop P0 P1 (P # Ps) s = Box2_expandAll_loop P0 P1 Ps s'"
    using Cons.prems ne by (simp add: Vec2_min_value Vec2_max_value s'_def lo_def hi_def)
  have e: "expand_corners (cells s P0, cells s P1) (cells s P) = (lo, hi)"
    using Cons.prems by (auto simp: expand_corners_def length_2_iff lo_def hi_def)
  have c: "cells s' P0 = lo" "cells s' P1 = hi" "length lo = 2" "length hi = 2"
    using ne by (simp_all add: s'_def lo_def hi_def)
  have m: "map (cells s') Ps = map (cells s) Ps"
    using Cons.prems by (auto simp: s'_def)
  have l: "\<forall>P \<in> set Ps. length (cells s' P) = 2"
    using Cons.prems by (auto simp: s'_def)
  have "Box2_expandAll_loop P0 P1 Ps s' =
     put P1 (snd (foldl expand_corners (cells s' P0, cells s' P1) (map (cells s') Ps)))
       (put P0 (fst (foldl expand_corners (cells s' P0, cells s' P1) (map (cells s') Ps))) s')"
    using Cons.prems l c by (intro Cons.IH) auto
  also have "\<dots> = put P1 (snd (foldl expand_corners (lo, hi) (map (cells s) Ps)))
       (put P0 (fst (foldl expand_corners (lo, hi) (map (cells s) Ps))) s)"
    unfolding c m unfolding s'_def using ne(3) by (rule put_pair_again)
  finally show ?case using step e by simp
qed

lemma Box3_expandAll_loop_value:
  assumes "P0 \<noteq> P1" "P0 \<notin> set Ps" "P1 \<notin> set Ps"
    and "length (cells s P0) = 3" "length (cells s P1) = 3"
    and "\<forall>P \<in> set Ps. length (cells s P) = 3"
  shows "Box3_expandAll_loop P0 P1 Ps s =
     put P1 (snd (foldl expand_corners (cells s P0, cells s P1) (map (cells s) Ps)))
       (put P0 (fst (foldl expand_corners (cells s P0, cells s P1) (map (cells s) Ps))) s)"
  using assms
proof (induction Ps arbitrary: s)
  case Nil
  then show ?case by (simp add: put_def)
next
  case (Cons P Ps)
  define lo where "lo = [Math_min (cells s P0 ! 0) (cells s P ! 0), Math_min (cells s P0 ! 1) (cells s P ! 1),
      Math_min (cells s P0 ! 2) (cells s P ! 2)]"
  define hi where "hi = [Math_max (cells s P1 ! 0) (cells s P ! 0), Math_max (cells s P1 ! 1) (cells s P ! 1),
      Math_max (cells s P1 ! 2) (cells s P ! 2)]"
  define s' where "s' = put P1 hi (put P0 lo s)"
  from Cons.prems have ne: "P \<noteq> P0" "P \<noteq> P1" "P0 \<noteq> P1" by auto
  have step: "Box3_expandAll_loop P0 P1 (P # Ps) s = Box3_expandAll_loop P0 P1 Ps s'"
    using Cons.prems ne by (simp add: Vec3_min_value Vec3_max_value s'_def lo_def hi_def)
  have e: "expand_corners (cells s P0, cells s P1) (cells s P) = (lo, hi)"
    using Cons.prems by (auto simp: expand_corners_def length_3_iff lo_def hi_def)
  have c: "cells s' P0 = lo" "cells s' P1 = hi" "length lo = 3" "length hi = 3"
    using ne by (simp_all add: s'_def lo_def hi_def)
  have m: "map (cells s') Ps = map (cells s) Ps"
    using Cons.prems by (auto simp: s'_def)
  have l: "\<forall>P \<in> set Ps. length (cells s' P) = 3"
    using Cons.prems by (auto simp: s'_def)
  have "Box3_expandAll_loop P0 P1 Ps s' =
     put P1 (snd (foldl expand_corners (cells s' P0, cells s' P1) (map (cells s') Ps)))
       (put P0 (fst (foldl expand_corners (cells s' P0, cells s' P1) (map (cells s') Ps))) s')"
    using Cons.prems l c by (intro Cons.IH) auto
  also have "\<dots> = put P1 (snd (foldl expand_corners (lo, hi) (map (cells s) Ps)))
       (put P0 (fst (foldl expand_corners (lo, hi) (map (cells s) Ps))) s)"
    unfolding c m unfolding s'_def using ne(3) by (rule put_pair_again)
  finally show ?case using step e by simp
qed

lemma Box2_fromPoints_supplied:
  assumes "d0 \<noteq> d1" "d0 \<notin> set Ps" "d1 \<notin> set Ps"
    and "length (cells s d0) = 2" "length (cells s d1) = 2"
    and "\<forall>P \<in> set Ps. length (cells s P) = 2"
  shows "box_result (Box2_fromPoints Ps (Some [d0, d1]) s) =
     corners_list (foldl expand_corners (empty_corners 2) (map (cells s) Ps))"
proof -
  define s' where "s' = put d1 [NInf, NInf] (put d0 [PInf, PInf] s)"
  have m: "map (cells s') Ps = map (cells s) Ps"
    using assms by (auto simp: s'_def)
  have c: "cells s' d0 = [PInf, PInf]" "cells s' d1 = [NInf, NInf]"
    using assms by (simp_all add: s'_def)
  have "Box2_expandAll_loop d0 d1 Ps s' =
     put d1 (snd (foldl expand_corners (cells s' d0, cells s' d1) (map (cells s') Ps)))
       (put d0 (fst (foldl expand_corners (cells s' d0, cells s' d1) (map (cells s') Ps))) s')"
    using assms by (intro Box2_expandAll_loop_value) (auto simp: s'_def)
  then show ?thesis
    using assms(1,4,5)
    by (simp add: Box2_fromPoints_def Box2_empty_value Box2_expandAll_def box_result_def
        corners_list_def empty_corners_def s'_def [symmetric] c m numeral_2_eq_2)
qed

lemma Box2_fromPoints_omitted:
  assumes "\<forall>P \<in> set Ps. P < fresh s \<and> length (cells s P) = 2"
  shows "box_result (Box2_fromPoints Ps None s) =
     corners_list (foldl expand_corners (empty_corners 2) (map (cells s) Ps))"
proof -
  define d0 where "d0 = fresh s"
  define d1 where "d1 = Suc (fresh s)"
  define s0 where "s0 = \<lparr>cells = (cells s)(d0 := [NaN, NaN], d1 := [NaN, NaN]), fresh = Suc (Suc (fresh s))\<rparr>"
  have u: "Box2_uninitialized s = ([d0, d1], s0)"
    by (simp add: Box2_uninitialized_value d0_def d1_def s0_def)
  have n: "d0 \<noteq> d1" "d0 \<notin> set Ps" "d1 \<notin> set Ps"
    using assms by (auto simp: d0_def d1_def)
  then have m: "map (cells s0) Ps = map (cells s) Ps"
    by (auto simp: s0_def)
  have l: "length (cells s0 d0) = 2" "length (cells s0 d1) = 2" "\<forall>P \<in> set Ps. length (cells s0 P) = 2"
    using assms n by (auto simp: s0_def)
  have "Box2_fromPoints Ps None s = Box2_fromPoints Ps (Some [d0, d1]) s0"
    by (simp add: Box2_fromPoints_def u)
  then show ?thesis
    using Box2_fromPoints_supplied [OF n l] by (simp add: m)
qed

lemma Box3_fromPoints_supplied:
  assumes "d0 \<noteq> d1" "d0 \<notin> set Ps" "d1 \<notin> set Ps"
    and "length (cells s d0) = 3" "length (cells s d1) = 3"
    and "\<forall>P \<in> set Ps. length (cells s P) = 3"
  shows "box3_result (Box3_fromPoints Ps (Some (Box3 d0 d1)) s) =
     corners_list (foldl expand_corners (cells s d0, cells s d1) (map (cells s) Ps))"
  using assms(1)
  by (simp add: Box3_fromPoints_def Box3_expandAll_def box3_result_def corners_list_def
      Box3_expandAll_loop_value [OF assms])

lemma Box3_fromPoints_omitted:
  assumes "\<forall>P \<in> set Ps. P < fresh s \<and> length (cells s P) = 3"
  shows "box3_result (Box3_fromPoints Ps None s) =
     corners_list (foldl expand_corners (empty_corners 3) (map (cells s) Ps))"
proof -
  define d0 where "d0 = fresh s"
  define d1 where "d1 = Suc (fresh s)"
  define s0 where "s0 = \<lparr>cells = (cells s)(d0 := [PInf, PInf, PInf], d1 := [NInf, NInf, NInf]), fresh = Suc (Suc (fresh s))\<rparr>"
  have u: "Box3_empty s = (Box3 d0 d1, s0)"
    by (simp add: Box3_empty_value d0_def d1_def s0_def)
  have n: "d0 \<noteq> d1" "d0 \<notin> set Ps" "d1 \<notin> set Ps"
    using assms by (auto simp: d0_def d1_def)
  then have m: "map (cells s0) Ps = map (cells s) Ps"
    by (auto simp: s0_def)
  have l: "length (cells s0 d0) = 3" "length (cells s0 d1) = 3" "\<forall>P \<in> set Ps. length (cells s0 P) = 3"
    using assms n by (auto simp: s0_def)
  have c: "cells s0 d0 = [PInf, PInf, PInf]" "cells s0 d1 = [NInf, NInf, NInf]"
    using n by (simp_all add: s0_def)
  have "Box3_fromPoints Ps None s = Box3_fromPoints Ps (Some (Box3 d0 d1)) s0"
    by (simp add: Box3_fromPoints_def u)
  then show ?thesis
    using Box3_fromPoints_supplied [OF n l] by (simp add: m c empty_corners_def numeral_3_eq_3)
qed




section \<open>Building a box from points\<close>

text \<open>
  Claim C5 says that \<^verbatim>\<open>Box2.fromPoints\<close> and \<^verbatim>\<open>Box3.fromPoints\<close> return, for every
  destination, also a populated one, the empty box expanded by the input points in order.
  \<^verbatim>\<open>Box2.fromPoints\<close> does (\<open>Box2_fromPoints_supplied\<close>, \<open>Box2_fromPoints_omitted\<close>), and
  so does \<^verbatim>\<open>Box3.fromPoints\<close> when the destination is omitted
  (\<open>Box3_fromPoints_omitted\<close>). But \<^verbatim>\<open>Box3.fromPoints\<close> never resets a destination that
  the caller supplies (\<open>Box3_fromPoints_supplied\<close>): with no input point it returns the box
  \<open>[(0,0,0), (1,1,1)]\<close> as it was given, not the empty box, and with the single point
  \<open>(5,5,5)\<close> it returns \<open>[(0,0,0), (5,5,5)]\<close>, not \<open>[(5,5,5), (5,5,5)]\<close>. The same calls
  without a destination, and the call of \<^verbatim>\<open>Box2.fromPoints\<close> on a populated destination,
  return what the claim says.
\<close>

theorem Box3_fromPoints_keeps_destination:
  "box3_result (Box3_fromPoints [] (Some (Box3 0 1))
     (store_of [[Fin 0, Fin 0, Fin 0], [Fin 1, Fin 1, Fin 1]])) =
     [[Fin 0, Fin 0, Fin 0], [Fin 1, Fin 1, Fin 1]] \<and>
   box3_result (Box3_fromPoints [] None
     (store_of [[Fin 0, Fin 0, Fin 0], [Fin 1, Fin 1, Fin 1]])) =
     [[PInf, PInf, PInf], [NInf, NInf, NInf]] \<and>
   box_result (Box2_fromPoints [] (Some [0, 1])
     (store_of [[Fin 0, Fin 0], [Fin 1, Fin 1]])) =
     [[PInf, PInf], [NInf, NInf]] \<and>
   box3_result (Box3_fromPoints [2] (Some (Box3 0 1))
     (store_of [[Fin 0, Fin 0, Fin 0], [Fin 1, Fin 1, Fin 1], [Fin 5, Fin 5, Fin 5]])) =
     [[Fin 0, Fin 0, Fin 0], [Fin 5, Fin 5, Fin 5]] \<and>
   box3_result (Box3_fromPoints [2] None
     (store_of [[Fin 0, Fin 0, Fin 0], [Fin 1, Fin 1, Fin 1], [Fin 5, Fin 5, Fin 5]])) =
     [[Fin 5, Fin 5, Fin 5], [Fin 5, Fin 5, Fin 5]]"
  by (simp add: box_eval)

section \<open>A destination that is also a source\<close>


text \<open>
  \<^verbatim>\<open>Box2.wrapping\<close> resets its destination in the same way. When the destination is one
  of the boxes to wrap, that box is emptied before it is read: wrapping \<open>B = [(0,0), (1,1)]\<close>
  and \<open>C = [(2,2), (3,3)]\<close> into \<open>B\<close> gives \<open>C\<close>, and into a fresh box the box around both.
\<close>

lemma Box2_wrapping_into_member:
  "box_result (Box2_wrapping [[0, 1], [2, 3]] (Some [0, 1])
     (store_of [[Fin 0, Fin 0], [Fin 1, Fin 1], [Fin 2, Fin 2], [Fin 3, Fin 3]])) =
     [[Fin 2, Fin 2], [Fin 3, Fin 3]] \<and>
   box_result (Box2_wrapping [[0, 1], [2, 3]] None
     (store_of [[Fin 0, Fin 0], [Fin 1, Fin 1], [Fin 2, Fin 2], [Fin 3, Fin 3]])) =
     [[Fin 0, Fin 0], [Fin 3, Fin 3]]"
  by (simp add: box_eval Box2_wrapping_def Box2_expandByBox_def)



end
